theory Spec2Isabelle
  imports Complex_Main "HOL-Library.AList" "HOL-Library.Sublist" "HOL-Library.Char_ord" "HOL-Library.List_Lexorder"
begin

section \<open>Resource verification script of the Turkey water risk atlas\<close>

text \<open>
  A shallow embedding of \<^verbatim>\<open>test-resources.py\<close>: six checks over the working
  directory and a local web server, run in a fixed order by \<^verbatim>\<open>main\<close>, which prints
  a report and returns the exit code.

  What the script reads from the outside world is made explicit: the directory tree
  under the working directory, whether the \<^verbatim>\<open>requests\<close> module could be
  imported, and what the one HTTP request does. Two functions of Python's library,
  \<^verbatim>\<open>json.loads\<close> and \<^verbatim>\<open>int\<close> on a string, are parameters of the model
  (the record \<open>library\<close>). Everything printed is returned as a list of lines.
\<close>

subsection \<open>Python values and exceptions\<close>

datatype pyerr =
  TypeError | ValueError | AttributeError | KeyError | IndexError
  | OverflowError | OSError | JSONDecodeError | ZeroDivisionError

text \<open>
  A float is a rational (every finite double is one) or one of the three non-finite
  values \<^verbatim>\<open>json.load\<close> can return for \<^verbatim>\<open>Infinity\<close>, \<^verbatim>\<open>-Infinity\<close>
  and \<^verbatim>\<open>NaN\<close>.
\<close>

datatype pyfloat = Finite rat | PosInf | NegInf | NaN

text \<open>
  What \<^verbatim>\<open>json.load\<close> returns: \<open>JNull\<close> is Python's \<^verbatim>\<open>None\<close>, \<open>JObj\<close>
  a \<^verbatim>\<open>dict\<close> with string keys, given as its items (a key is looked up with
  \<open>map_of\<close>).
\<close>

datatype json =
  JNull | JBool bool | JInt int | JFloat pyfloat | JStr string
  | JArr "json list" | JObj "(string \<times> json) list"

text \<open>
  The two library functions the model takes as parameters; \<open>None\<close> stands for the
  exception the function raises (\<^verbatim>\<open>JSONDecodeError\<close>, \<^verbatim>\<open>ValueError\<close>).
\<close>

record library =
  json_loads :: "string \<Rightarrow> json option"
  int_of_str :: "string \<Rightarrow> int option"

text \<open>\<^verbatim>\<open>pat in s\<close> for two strings: \<open>pat\<close> occurs in \<open>s\<close>.\<close>

fun contains :: "string \<Rightarrow> string \<Rightarrow> bool" where
  "contains pat [] = (pat = [])"
| "contains pat (c # cs) = (take (length pat) (c # cs) = pat \<or> contains pat cs)"

text \<open>\<^verbatim>\<open>key in x\<close> for a string \<open>key\<close>.\<close>

fun py_in :: "string \<Rightarrow> json \<Rightarrow> pyerr + bool" where
  "py_in key (JObj items) = Inr (key \<in> set (map fst items))"
| "py_in key (JArr xs) = Inr (JStr key \<in> set xs)"
| "py_in key (JStr s) = Inr (contains key s)"
| "py_in key _ = Inl TypeError"

text \<open>\<^verbatim>\<open>x.get(key, default)\<close>: only a dict has the method.\<close>

fun py_get :: "json \<Rightarrow> string \<Rightarrow> json \<Rightarrow> pyerr + json" where
  "py_get (JObj items) key dflt =
     Inr (case map_of items key of None \<Rightarrow> dflt | Some v \<Rightarrow> v)"
| "py_get _ key dflt = Inl AttributeError"

text \<open>\<^verbatim>\<open>x[key]\<close> for a string \<open>key\<close>.\<close>

fun py_item :: "json \<Rightarrow> string \<Rightarrow> pyerr + json" where
  "py_item (JObj items) key =
     (case map_of items key of None \<Rightarrow> Inl KeyError | Some v \<Rightarrow> Inr v)"
| "py_item _ key = Inl TypeError"

text \<open>
  \<^verbatim>\<open>x[0]\<close>. The keys of a dict read from JSON are strings, so \<^verbatim>\<open>0\<close> is never
  one of them.
\<close>

fun py_first :: "json \<Rightarrow> pyerr + json" where
  "py_first (JArr []) = Inl IndexError"
| "py_first (JArr (x # xs)) = Inr x"
| "py_first (JStr []) = Inl IndexError"
| "py_first (JStr (c # cs)) = Inr (JStr [c])"
| "py_first (JObj items) = Inl KeyError"
| "py_first _ = Inl TypeError"

text \<open>\<^verbatim>\<open>len(x)\<close>.\<close>

fun py_len :: "json \<Rightarrow> pyerr + nat" where
  "py_len (JArr xs) = Inr (length xs)"
| "py_len (JStr s) = Inr (length s)"
| "py_len (JObj items) = Inr (length items)"
| "py_len _ = Inl TypeError"

text \<open>The truth value of \<open>x\<close> in a condition.\<close>

fun truthy :: "json \<Rightarrow> bool" where
  "truthy JNull = False"
| "truthy (JBool b) = b"
| "truthy (JInt n) = (n \<noteq> 0)"
| "truthy (JFloat f) = (f \<noteq> Finite 0)"
| "truthy (JStr s) = (s \<noteq> [])"
| "truthy (JArr xs) = (xs \<noteq> [])"
| "truthy (JObj items) = (items \<noteq> [])"

text \<open>
  \<^verbatim>\<open>int(x)\<close>: an int is itself, a bool is 0 or 1, a finite float is truncated
  towards zero, a string is parsed; every other value raises.
\<close>

fun py_int :: "library \<Rightarrow> json \<Rightarrow> pyerr + int" where
  "py_int lib (JInt n) = Inr n"
| "py_int lib (JBool b) = Inr (if b then 1 else 0)"
| "py_int lib (JFloat (Finite q)) = Inr (if 0 \<le> q then \<lfloor>q\<rfloor> else \<lceil>q\<rceil>)"
| "py_int lib (JFloat NaN) = Inl ValueError"
| "py_int lib (JFloat _) = Inl OverflowError"
| "py_int lib (JStr s) =
     (case int_of_str lib s of None \<Rightarrow> Inl ValueError | Some n \<Rightarrow> Inr n)"
| "py_int lib _ = Inl TypeError"

text \<open>\<^verbatim>\<open>json.loads(x)\<close>: the argument must be a string.\<close>

fun py_loads :: "library \<Rightarrow> json \<Rightarrow> pyerr + json" where
  "py_loads lib (JStr s) =
     (case json_loads lib s of None \<Rightarrow> Inl JSONDecodeError | Some v \<Rightarrow> Inr v)"
| "py_loads lib _ = Inl TypeError"

subsection \<open>The working directory\<close>

text \<open>
  A path is the list of its components: \<^verbatim>\<open>docs/index.html\<close> is
  \<open>[''docs'', ''index.html'']\<close>. A directory is the list of its entries (names are
  looked up with \<open>map_of\<close>). A file that exists but cannot be opened or decoded is
  \<open>Unreadable\<close>.
\<close>

type_synonym path = "string list"

datatype content = Text string | Unreadable

datatype node = File content | Dir "(string \<times> node) list"

fun walk :: "path \<Rightarrow> node \<Rightarrow> node option" where
  "walk [] n = Some n"
| "walk (x # xs) (File c) = None"
| "walk (x # xs) (Dir entries) =
     (case map_of entries x of None \<Rightarrow> None | Some n \<Rightarrow> walk xs n)"

text \<open>\<^verbatim>\<open>os.path.exists\<close> and \<^verbatim>\<open>Path.exists\<close>.\<close>

definition path_exists :: "node \<Rightarrow> path \<Rightarrow> bool" where
  "path_exists fs p = (walk p fs \<noteq> None)"

text \<open>\<^verbatim>\<open>open(p, 'r')\<close> followed by reading the whole file.\<close>

definition read_text :: "node \<Rightarrow> path \<Rightarrow> pyerr + string" where
  "read_text fs p =
     (case walk p fs of Some (File (Text s)) \<Rightarrow> Inr s | _ \<Rightarrow> Inl OSError)"

text \<open>\<^verbatim>\<open>with open(p, 'r') as f: json.load(f)\<close>.\<close>

definition json_load :: "library \<Rightarrow> node \<Rightarrow> path \<Rightarrow> pyerr + json" where
  "json_load lib fs p =
     (case read_text fs p of
        Inl e \<Rightarrow> Inl e
      | Inr s \<Rightarrow> (case json_loads lib s of None \<Rightarrow> Inl JSONDecodeError | Some v \<Rightarrow> Inr v))"

fun join_path :: "path \<Rightarrow> string" where
  "join_path [] = []"
| "join_path [x] = x"
| "join_path (x # y # ys) = x @ ''/'' @ join_path (y # ys)"

text \<open>\<^verbatim>\<open>os.path.basename\<close>.\<close>

definition basename :: "path \<Rightarrow> string" where
  "basename p = (if p = [] then [] else last p)"

text \<open>Deleting the file or the directory at a path; a path that does not exist changes nothing.\<close>

fun remove_path :: "path \<Rightarrow> node \<Rightarrow> node" where
  "remove_path [] n = n"
| "remove_path (x # xs) (File c) = File c"
| "remove_path [x] (Dir entries) = Dir (filter (\<lambda>(k, v). k \<noteq> x) entries)"
| "remove_path (x # y # ys) (Dir entries) =
     Dir (map (\<lambda>(k, v). if k = x then (k, remove_path (y # ys) v) else (k, v)) entries)"

subsection \<open>Report lines\<close>

text \<open>
  A printed line, by the mark it starts with: the check mark (\<open>Ok\<close>), the cross
  (\<open>Bad\<close>), the warning sign (\<open>Warn\<close>) or anything else (\<open>Note\<close>). The text is
  the line's fixed wording, without the mark and without a leading newline; an exception's
  message, a file's size and the value after \<^verbatim>\<open>got\<close> are left out. \<open>Stat\<close> is a
  line that prints numbers, given after its wording.
\<close>

datatype line = Ok string | Bad string | Warn string | Note string | Stat string "nat list"

subsection \<open>The six checks\<close>

text \<open>\<^verbatim>\<open>test_local_files\<close>: every required file exists.\<close>

definition required_files :: "path list" where
  "required_files =
     [[''docs'', ''index.html''],
      [''docs'', ''tiles_catchments'', ''metadata.json''],
      [''docs'', ''data_web'', ''turkey_provinces_web.geojson''],
      [''docs'', ''data_web'', ''hydrorivers_tr_web_final.geojson''],
      [''docs'', ''data_web'', ''hydrolakes_tr_web.geojson'']]"

definition test_local_files :: "node \<Rightarrow> line list \<times> bool" where
  "test_local_files fs =
     (let missing_files = filter (\<lambda>file_path. \<not> path_exists fs file_path) required_files
      in if missing_files \<noteq> []
         then (Note ''Testing local files in docs/ directory...''
                 # Bad ''Missing files:''
                 # map (\<lambda>file. Note (''   - '' @ join_path file)) missing_files,
               False)
         else ([Note ''Testing local files in docs/ directory...'',
                Ok ''All required files exist''],
               True))"

text \<open>
  \<^verbatim>\<open>test_metadata_structure\<close>. The four basic checks, in the order Python evaluates
  them; an exception in one of them ends the whole list.
\<close>

definition metadata_path :: path where
  "metadata_path = [''docs'', ''tiles_catchments'', ''metadata.json'']"

definition layer_id :: string where
  "layer_id = ''aqueduct_baseline_annual_tr_web''"

definition basic_checks :: "library \<Rightarrow> json \<Rightarrow> pyerr + (bool \<times> string) list" where
  "basic_checks lib metadata =
     (case py_in ''name'' metadata of Inl e \<Rightarrow> Inl e | Inr has_name \<Rightarrow>
      case py_get metadata ''format'' JNull of Inl e \<Rightarrow> Inl e | Inr fmt \<Rightarrow>
      case py_get metadata ''minzoom'' (JInt 0) of Inl e \<Rightarrow> Inl e | Inr lo \<Rightarrow>
      case py_int lib lo of Inl e \<Rightarrow> Inl e | Inr minzoom \<Rightarrow>
      case py_get metadata ''maxzoom'' (JInt 0) of Inl e \<Rightarrow> Inl e | Inr hi \<Rightarrow>
      case py_int lib hi of Inl e \<Rightarrow> Inl e | Inr maxzoom \<Rightarrow>
        Inr [(has_name, ''Has name field''),
             (fmt = JStr ''pbf'', ''Format is pbf''),
             (minzoom = 4, ''Min zoom is 4''),
             (maxzoom = 10, ''Max zoom is 10'')])"

text \<open>
  The vector layers of the embedded JSON string: \<open>JNull\<close> (Python's \<^verbatim>\<open>None\<close>)
  unless the \<^verbatim>\<open>json\<close> key is there and the inner \<^verbatim>\<open>try\<close> block runs to its
  end; the bare \<^verbatim>\<open>except\<close> swallows whatever the block raises.
\<close>

definition embedded_layers :: "library \<Rightarrow> json \<Rightarrow> pyerr + json" where
  "embedded_layers lib metadata =
     (case py_in ''json'' metadata of
        Inl e \<Rightarrow> Inl e
      | Inr False \<Rightarrow> Inr JNull
      | Inr True \<Rightarrow>
          (case (case py_item metadata ''json'' of Inl e \<Rightarrow> Inl e | Inr embedded \<Rightarrow>
                 case py_loads lib embedded of Inl e \<Rightarrow> Inl e | Inr json_data \<Rightarrow>
                   py_get json_data ''vector_layers'' (JArr [])) of
             Inl e \<Rightarrow> Inr JNull
           | Inr vector_layers \<Rightarrow> Inr vector_layers))"

text \<open>
  The two layer checks: \<^verbatim>\<open>vector_layers is not None and len(vector_layers) > 0\<close>,
  then \<^verbatim>\<open>vector_layers and vector_layers[0].get('id') == ...\<close>. The description of
  the second evaluates the same subscript under the same guard, after the check, and
  raises nothing the check has not raised.
\<close>

definition has_layers :: "json \<Rightarrow> pyerr + bool" where
  "has_layers vector_layers =
     (if vector_layers = JNull then Inr False
      else case py_len vector_layers of Inl e \<Rightarrow> Inl e | Inr n \<Rightarrow> Inr (0 < n))"

definition layer_id_ok :: "json \<Rightarrow> pyerr + bool" where
  "layer_id_ok vector_layers =
     (if \<not> truthy vector_layers then Inr False
      else case py_first vector_layers of Inl e \<Rightarrow> Inl e | Inr layer \<Rightarrow>
           case py_get layer ''id'' JNull of Inl e \<Rightarrow> Inl e | Inr i \<Rightarrow>
             Inr (i = JStr layer_id))"

definition layer_checks :: "json \<Rightarrow> pyerr + (bool \<times> string) list" where
  "layer_checks vector_layers =
     (case has_layers vector_layers of Inl e \<Rightarrow> Inl e | Inr c1 \<Rightarrow>
      case layer_id_ok vector_layers of Inl e \<Rightarrow> Inl e | Inr c2 \<Rightarrow>
        Inr [(c1, ''Has vector layers in JSON''), (c2, ''Correct layer ID'')])"

text \<open>Everything inside the outer \<^verbatim>\<open>try\<close> up to the list \<^verbatim>\<open>all_checks\<close>.\<close>

definition all_checks :: "library \<Rightarrow> node \<Rightarrow> pyerr + (bool \<times> string) list" where
  "all_checks lib fs =
     (case json_load lib fs metadata_path of Inl e \<Rightarrow> Inl e | Inr metadata \<Rightarrow>
      case basic_checks lib metadata of Inl e \<Rightarrow> Inl e | Inr basic \<Rightarrow>
      case embedded_layers lib metadata of Inl e \<Rightarrow> Inl e | Inr vector_layers \<Rightarrow>
      case layer_checks vector_layers of Inl e \<Rightarrow> Inl e | Inr layer \<Rightarrow>
        Inr (basic @ layer))"

text \<open>The loop that prints one line per check and counts the passed ones.\<close>

fun print_checks :: "(bool \<times> string) list \<Rightarrow> nat \<Rightarrow> line list \<times> nat" where
  "print_checks [] passed = ([], passed)"
| "print_checks ((check, description) # rest) passed =
     (if check
      then (case print_checks rest (passed + 1) of (out, n) \<Rightarrow> (Ok description # out, n))
      else (case print_checks rest passed of (out, n) \<Rightarrow> (Bad description # out, n)))"

definition test_metadata_structure :: "library \<Rightarrow> node \<Rightarrow> line list \<times> bool" where
  "test_metadata_structure lib fs =
     (case all_checks lib fs of
        Inl e \<Rightarrow> ([Note ''Testing metadata structure...'', Bad ''Error reading metadata''], False)
      | Inr checks \<Rightarrow>
          (case print_checks checks 0 of
             (out, passed) \<Rightarrow> (Note ''Testing metadata structure...'' # out,
                               passed = length checks)))"

text \<open>
  \<^verbatim>\<open>test_geojson_files\<close>. One file of the loop: the test
  \<^verbatim>\<open>'type' in data and data['type'] in ['FeatureCollection', 'Feature']\<close> after loading.
\<close>

definition geojson_files :: "path list" where
  "geojson_files =
     [[''docs'', ''data_web'', ''turkey_provinces_web.geojson''],
      [''docs'', ''data_web'', ''hydrorivers_tr_web_final.geojson''],
      [''docs'', ''data_web'', ''hydrolakes_tr_web.geojson'']]"

definition geojson_type_ok :: "json \<Rightarrow> pyerr + bool" where
  "geojson_type_ok data =
     (case py_in ''type'' data of
        Inl e \<Rightarrow> Inl e
      | Inr False \<Rightarrow> Inr False
      | Inr True \<Rightarrow>
          (case py_item data ''type'' of
             Inl e \<Rightarrow> Inl e
           | Inr t \<Rightarrow> Inr (t \<in> set [JStr ''FeatureCollection'', JStr ''Feature''])))"

definition geojson_file :: "library \<Rightarrow> node \<Rightarrow> path \<Rightarrow> pyerr + bool" where
  "geojson_file lib fs file_path =
     (case json_load lib fs file_path of Inl e \<Rightarrow> Inl e | Inr data \<Rightarrow> geojson_type_ok data)"

fun geojson_loop :: "library \<Rightarrow> node \<Rightarrow> path list \<Rightarrow> bool \<Rightarrow> line list \<times> bool" where
  "geojson_loop lib fs [] all_valid = ([], all_valid)"
| "geojson_loop lib fs (file_path # rest) all_valid =
     (case geojson_file lib fs file_path of
        Inr True \<Rightarrow>
          (case geojson_loop lib fs rest all_valid of
             (out, r) \<Rightarrow> (Ok (basename file_path @ '' - Valid GeoJSON'') # out, r))
      | Inr False \<Rightarrow>
          (case geojson_loop lib fs rest False of
             (out, r) \<Rightarrow> (Bad (basename file_path @ '' - Invalid GeoJSON structure'') # out, r))
      | Inl e \<Rightarrow>
          (case geojson_loop lib fs rest False of
             (out, r) \<Rightarrow> (Bad (basename file_path @ '' - Error'') # out, r)))"

definition test_geojson_files :: "library \<Rightarrow> node \<Rightarrow> line list \<times> bool" where
  "test_geojson_files lib fs =
     (case geojson_loop lib fs geojson_files True of
        (out, all_valid) \<Rightarrow> (Note ''Testing GeoJSON files...'' # out, all_valid))"

text \<open>\<^verbatim>\<open>test_sample_tiles\<close>.\<close>

definition sample_tiles :: "path list" where
  "sample_tiles =
     [[''docs'', ''tiles_catchments'', ''4'', ''10'', ''6.pbf''],
      [''docs'', ''tiles_catchments'', ''6'', ''36'', ''23.pbf''],
      [''docs'', ''tiles_catchments'', ''8'', ''146'', ''95.pbf''],
      [''docs'', ''tiles_catchments'', ''10'', ''604'', ''401.pbf'']]"

fun tiles_loop :: "node \<Rightarrow> path list \<Rightarrow> nat \<Rightarrow> line list \<times> nat" where
  "tiles_loop fs [] existing_tiles = ([], existing_tiles)"
| "tiles_loop fs (tile_path # rest) existing_tiles =
     (if path_exists fs tile_path
      then (case tiles_loop fs rest (existing_tiles + 1) of
              (out, n) \<Rightarrow> (Ok (join_path tile_path @ '' - bytes'') # out, n))
      else (case tiles_loop fs rest existing_tiles of
              (out, n) \<Rightarrow> (Bad (join_path tile_path @ '' - Missing'') # out, n)))"

definition test_sample_tiles :: "node \<Rightarrow> line list \<times> bool" where
  "test_sample_tiles fs =
     (case tiles_loop fs sample_tiles 0 of
        (out, existing_tiles) \<Rightarrow>
          (Note ''Testing sample tile files...'' # out, existing_tiles = length sample_tiles))"

text \<open>
  \<^verbatim>\<open>count_tiles\<close>. \<^verbatim>\<open>rglob('*.pbf')\<close> lists every entry below the directory,
  at any depth, whose name ends in \<^verbatim>\<open>.pbf\<close>; here by its path from the directory.
  On something that is not a directory it lists nothing.
\<close>

definition tiles_dir :: path where
  "tiles_dir = [''docs'', ''tiles_catchments'']"

definition ends_with :: "string \<Rightarrow> string \<Rightarrow> bool" where
  "ends_with suf s =
     (length suf \<le> length s \<and> drop (length s - length suf) s = suf)"

fun rglob_pbf :: "node \<Rightarrow> path list" where
  "rglob_pbf (File c) = []"
| "rglob_pbf (Dir entries) =
     concat (map (\<lambda>(name, child).
                    (if ends_with ''.pbf'' name then [[name]] else [])
                    @ map ((#) name) (rglob_pbf child))
                 entries)"

text \<open>\<^verbatim>\<open>xs.index(x)\<close>.\<close>

fun py_index :: "string list \<Rightarrow> string \<Rightarrow> pyerr + nat" where
  "py_index [] x = Inl ValueError"
| "py_index (y # ys) x =
     (if y = x then Inr 0
      else case py_index ys x of Inl e \<Rightarrow> Inl e | Inr i \<Rightarrow> Inr (i + 1))"

text \<open>The body of the \<^verbatim>\<open>try\<close> in the zoom loop: the component after \<^verbatim>\<open>tiles_catchments\<close>.\<close>

definition zoom_of :: "path \<Rightarrow> pyerr + string" where
  "zoom_of parts =
     (case py_index parts ''tiles_catchments'' of
        Inl e \<Rightarrow> Inl e
      | Inr i \<Rightarrow> (if i + 1 < length parts then Inr (parts ! (i + 1)) else Inl IndexError))"

fun zoom_loop :: "path list \<Rightarrow> (string \<times> nat) list \<Rightarrow> (string \<times> nat) list" where
  "zoom_loop [] zoom_counts = zoom_counts"
| "zoom_loop (pbf_file # rest) zoom_counts =
     (case zoom_of pbf_file of
        Inl e \<Rightarrow> zoom_loop rest zoom_counts
      | Inr zoom \<Rightarrow>
          zoom_loop rest
            (AList.update zoom
               ((case map_of zoom_counts zoom of None \<Rightarrow> 0 | Some n \<Rightarrow> n) + 1)
               zoom_counts))"

definition pbf_files :: "node \<Rightarrow> path list" where
  "pbf_files fs =
     (case walk tiles_dir fs of
        None \<Rightarrow> []
      | Some d \<Rightarrow> map ((@) tiles_dir) (rglob_pbf d))"

definition count_tiles :: "node \<Rightarrow> line list \<times> bool" where
  "count_tiles fs =
     (if \<not> path_exists fs tiles_dir
      then ([Note ''Counting tile files...'', Bad ''tiles_catchments directory not found''],
            False)
      else
        (let zoom_counts = zoom_loop (pbf_files fs) []
         in ([Note ''Counting tile files...'',
              Stat ''Total tile files'' [length (pbf_files fs)],
              Note ''Tiles by zoom level:'']
             @ map (\<lambda>zoom. Stat (''Zoom '' @ zoom)
                              [case map_of zoom_counts zoom of None \<Rightarrow> 0 | Some n \<Rightarrow> n])
                   (sort (map fst zoom_counts)),
             0 < length (pbf_files fs))))"

text \<open>
  \<^verbatim>\<open>test_web_server\<close>. The script's surroundings: the working directory, whether
  \<^verbatim>\<open>import requests\<close> succeeded, and what \<^verbatim>\<open>requests.get\<close> does: it returns a
  response with a status code, or it raises.
\<close>

datatype http = Response nat | No_response

record env =
  cwd :: node
  has_requests :: bool
  server :: http

definition test_web_server :: "env \<Rightarrow> line list \<times> bool option" where
  "test_web_server e =
     (if \<not> has_requests e
      then ([Note ''Web server test skipped (install requests: pip install requests)''], None)
      else case server e of
             Response status_code \<Rightarrow>
               (if status_code = 200
                then ([Note ''Testing web server at http://localhost:8000...'',
                       Ok ''Web server responding''], Some True)
                else ([Note ''Testing web server at http://localhost:8000...'',
                       Bad ''Web server error''], Some False))
           | No_response \<Rightarrow>
               ([Note ''Testing web server at http://localhost:8000...'',
                 Warn ''Web server not accessible'',
                 Note ''Start server with: cd docs && python -m http.server 8000''], None))"

subsection \<open>The orchestrator\<close>

text \<open>
  A check as \<^verbatim>\<open>main\<close> sees it: what it printed, and the value it returned
  (\<^verbatim>\<open>True\<close>, \<^verbatim>\<open>False\<close> or \<^verbatim>\<open>None\<close>) or the exception it raised.
\<close>

type_synonym check = "env \<Rightarrow> line list \<times> (pyerr + bool option)"

definition returns :: "line list \<times> bool \<Rightarrow> line list \<times> (pyerr + bool option)" where
  "returns r = (fst r, Inr (Some (snd r)))"

definition tests :: "library \<Rightarrow> (string \<times> check) list" where
  "tests lib =
     [(''Local Files'', \<lambda>e. returns (test_local_files (cwd e))),
      (''Metadata Structure'', \<lambda>e. returns (test_metadata_structure lib (cwd e))),
      (''GeoJSON Files'', \<lambda>e. returns (test_geojson_files lib (cwd e))),
      (''Sample Tiles'', \<lambda>e. returns (test_sample_tiles (cwd e))),
      (''Tile Count'', \<lambda>e. returns (count_tiles (cwd e))),
      (''Web Server'', \<lambda>e. (fst (test_web_server e), Inr (snd (test_web_server e))))]"

text \<open>The loop over the tests, with its \<^verbatim>\<open>try\<close> and \<^verbatim>\<open>except Exception\<close>.\<close>

fun run_tests :: "(string \<times> check) list \<Rightarrow> env \<Rightarrow> line list \<times> (string \<times> bool option) list" where
  "run_tests [] e = ([], [])"
| "run_tests ((test_name, test_func) # rest) e =
     (case test_func e of
        (out, Inr result) \<Rightarrow>
          (case run_tests rest e of
             (out', results) \<Rightarrow> (out @ out', (test_name, result) # results))
      | (out, Inl err) \<Rightarrow>
          (case run_tests rest e of
             (out', results) \<Rightarrow>
               (out @ Bad (test_name @ '' test failed with error'') # out',
                (test_name, Some False) # results)))"

text \<open>The summary loop: \<^verbatim>\<open>total\<close> counts every result, \<^verbatim>\<open>passed\<close> those that are \<^verbatim>\<open>True\<close>.\<close>

fun summary_loop ::
  "(string \<times> bool option) list \<Rightarrow> nat \<Rightarrow> nat \<Rightarrow> line list \<times> nat \<times> nat" where
  "summary_loop [] passed total' = ([], passed, total')"
| "summary_loop ((test_name, result) # rest) passed total' =
     (if result = Some True
      then (case summary_loop rest (passed + 1) (total' + 1) of
              (out, p, t) \<Rightarrow> (Ok test_name # out, p, t))
      else if result = None
      then (case summary_loop rest passed (total' + 1) of
              (out, p, t) \<Rightarrow> (Warn (test_name @ '' - Skipped'') # out, p, t))
      else (case summary_loop rest passed (total' + 1) of
              (out, p, t) \<Rightarrow> (Bad test_name # out, p, t)))"

text \<open>
  \<^verbatim>\<open>(passed / total) * 100\<close>. Python computes it in floating point; the model
  computes it exactly. With the six tests of \<^verbatim>\<open>main\<close> the two agree on both
  comparisons: 6/6 * 100 is exactly 100.0, and the other quotients are far from 80 and 100.
\<close>

definition success_rate :: "nat \<Rightarrow> nat \<Rightarrow> pyerr + rat" where
  "success_rate passed total' =
     (if total' = 0 then Inl ZeroDivisionError else Inr (of_nat passed / of_nat total' * 100))"

definition verdict :: "rat \<Rightarrow> line \<times> nat" where
  "verdict rate =
     (if rate = 100
      then (Note ''All tests passed! Your water risk atlas is ready to deploy.'', 0)
      else if 80 \<le> rate
      then (Warn ''Most tests passed. Check the failed tests before deploying.'', 1)
      else (Bad ''Many tests failed. Fix the issues before deploying.'', 2))"

definition main :: "library \<Rightarrow> env \<Rightarrow> line list \<times> (pyerr + nat)" where
  "main lib e =
     (case run_tests (tests lib) e of (out, results) \<Rightarrow>
      case summary_loop results 0 0 of (lines, passed, total') \<Rightarrow>
        (let printed =
               [Note ''Turkey Water Risk Atlas - Resource Verification Tests'',
                Note (replicate 60 (CHR ''=''))]
               @ out @ [Note (replicate 60 (CHR ''='')), Note ''TEST SUMMARY:''] @ lines
         in case success_rate passed total' of
              Inl err \<Rightarrow> (printed, Inl err)
            | Inr rate \<Rightarrow>
                (printed @ [Stat ''Overall: tests passed'' [passed, total'], fst (verdict rate)],
                 Inr (snd (verdict rate)))))"

text \<open>The results \<^verbatim>\<open>main\<close> collects, and the pass rate it computes from them.\<close>

definition results :: "library \<Rightarrow> env \<Rightarrow> (string \<times> bool option) list" where
  "results lib e = snd (run_tests (tests lib) e)"

definition pass_rate :: "library \<Rightarrow> env \<Rightarrow> rat" where
  "pass_rate lib e =
     (case summary_loop (results lib e) 0 0 of
        (lines, passed, total') \<Rightarrow> of_nat passed / of_nat total' * 100)"

text \<open>The line the GeoJSON loop prints for one file, from what loading and testing it gave.\<close>

definition geojson_line :: "path \<Rightarrow> pyerr + bool \<Rightarrow> line" where
  "geojson_line file_path r =
     (case r of
        Inr True \<Rightarrow> Ok (basename file_path @ '' - Valid GeoJSON'')
      | Inr False \<Rightarrow> Bad (basename file_path @ '' - Invalid GeoJSON structure'')
      | Inl e \<Rightarrow> Bad (basename file_path @ '' - Error''))"

text \<open>The line the metadata check prints for one sub-check.\<close>

definition check_line :: "bool \<times> string \<Rightarrow> line" where
  "check_line c = (if fst c then Ok (snd c) else Bad (snd c))"

subsection \<open>Example surroundings\<close>

text \<open>
  JSON texts, written out character by character where they hold a double quote
  (\<open>CHR 0x22\<close>) or a backslash (\<open>CHR 0x5C\<close>).
\<close>

definition quoted :: "string \<Rightarrow> string" where
  "quoted s = [CHR 0x22] @ s @ [CHR 0x22]"

definition escaped :: "string \<Rightarrow> string" where
  "escaped s = [CHR 0x5C, CHR 0x22] @ s @ [CHR 0x5C, CHR 0x22]"

text \<open>\<^verbatim>\<open>{"vector_layers":[{"id":"aqueduct_baseline_annual_tr_web"}]}\<close>, and the same text
  as it stands inside a JSON string.\<close>

definition layers_text :: string where
  "layers_text =
     ''{'' @ quoted ''vector_layers'' @ '':[{'' @ quoted ''id'' @ '':'' @ quoted layer_id @ ''}]}''"

definition layers_text_escaped :: string where
  "layers_text_escaped =
     ''{'' @ escaped ''vector_layers'' @ '':[{'' @ escaped ''id'' @ '':'' @ escaped layer_id @ ''}]}''"

definition layers_doc :: json where
  "layers_doc = JObj [(''vector_layers'', JArr [JObj [(''id'', JStr layer_id)]])]"

text \<open>
  The metadata document of the specification's end-to-end scenario,
  \<^verbatim>\<open>{"format":"pbf","minzoom":4,"maxzoom":10,"json":"{\"vector_layers\":[{\"id\":\"aqueduct_baseline_annual_tr_web\"}]}"}\<close>.
\<close>

definition spec_metadata_text :: string where
  "spec_metadata_text =
     ''{'' @ quoted ''format'' @ '':'' @ quoted ''pbf'' @ '','' @ quoted ''minzoom'' @ '':4,''
     @ quoted ''maxzoom'' @ '':10,'' @ quoted ''json'' @ '':'' @ [CHR 0x22] @ layers_text_escaped
     @ [CHR 0x22] @ ''}''"

definition spec_metadata_doc :: json where
  "spec_metadata_doc =
     JObj [(''format'', JStr ''pbf''), (''minzoom'', JInt 4), (''maxzoom'', JInt 10),
           (''json'', JStr layers_text)]"

text \<open>
  The same document with a name in front and a chosen \<^verbatim>\<open>minzoom\<close>:
  \<^verbatim>\<open>{"name":"catchments","format":"pbf","minzoom":\<close>\<open>z\<close>\<^verbatim>\<open>,"maxzoom":10,"json":"..."}\<close>.
\<close>

definition metadata_text :: "string \<Rightarrow> string" where
  "metadata_text z =
     ''{'' @ quoted ''name'' @ '':'' @ quoted ''catchments'' @ '','' @ quoted ''format'' @ '':''
     @ quoted ''pbf'' @ '','' @ quoted ''minzoom'' @ '':'' @ z @ '','' @ quoted ''maxzoom''
     @ '':10,'' @ quoted ''json'' @ '':'' @ [CHR 0x22] @ layers_text_escaped @ [CHR 0x22] @ ''}''"

definition metadata_doc :: "json \<Rightarrow> json" where
  "metadata_doc z =
     JObj [(''name'', JStr ''catchments''), (''format'', JStr ''pbf''), (''minzoom'', z),
           (''maxzoom'', JInt 10), (''json'', JStr layers_text)]"

text \<open>\<^verbatim>\<open>{"minzoom":null}\<close> and \<^verbatim>\<open>{"name":"catchments","format":"pbf","minzoom":4,"maxzoom":10}\<close>,
  two documents without the \<^verbatim>\<open>json\<close> key.\<close>

definition null_zoom_text :: string where
  "null_zoom_text = ''{'' @ quoted ''minzoom'' @ '':null}''"

definition plain_metadata_text :: string where
  "plain_metadata_text =
     ''{'' @ quoted ''name'' @ '':'' @ quoted ''catchments'' @ '','' @ quoted ''format'' @ '':''
     @ quoted ''pbf'' @ '','' @ quoted ''minzoom'' @ '':4,'' @ quoted ''maxzoom'' @ '':10}''"

definition plain_metadata_doc :: json where
  "plain_metadata_doc =
     JObj [(''name'', JStr ''catchments''), (''format'', JStr ''pbf''), (''minzoom'', JInt 4),
           (''maxzoom'', JInt 10)]"

text \<open>\<^verbatim>\<open>{"type":"FeatureCollection","features":[]}\<close>.\<close>

definition collection_text :: string where
  "collection_text =
     ''{'' @ quoted ''type'' @ '':'' @ quoted ''FeatureCollection'' @ '','' @ quoted ''features''
     @ '':[]}''"

definition collection_doc :: json where
  "collection_doc = JObj [(''type'', JStr ''FeatureCollection''), (''features'', JArr [])]"

text \<open>
  A library for the examples: \<^verbatim>\<open>json.loads\<close> and \<^verbatim>\<open>int\<close> as tables over the
  texts the examples use, each with the value Python gives for it. A text outside the
  table is treated as invalid; the examples load only texts of the table and the text
  \<^verbatim>\<open>{\<close>, which is invalid JSON.
\<close>

definition example_lib :: library where
  "example_lib =
     \<lparr>json_loads = map_of
        [(spec_metadata_text, spec_metadata_doc),
         (metadata_text ''4'', metadata_doc (JInt 4)),
         (metadata_text ''5'', metadata_doc (JInt 5)),
         (metadata_text ''4.5'', metadata_doc (JFloat (Finite (9 / 2)))),
         (metadata_text ''null'', metadata_doc JNull),
         (null_zoom_text, JObj [(''minzoom'', JNull)]),
         (plain_metadata_text, plain_metadata_doc),
         (layers_text, layers_doc),
         (collection_text, collection_doc)],
      int_of_str = map_of [(''4'', 4), (''10'', 10)]\<rparr>"

text \<open>
  A working directory with every file the checks look for: the metadata file and the
  rivers file hold the given texts, the other two GeoJSON files the feature collection,
  and the four sample tiles exist.
\<close>

definition site_with :: "string \<Rightarrow> string \<Rightarrow> node" where
  "site_with metadata rivers =
     Dir [(''docs'', Dir
       [(''index.html'', File (Text ''<html></html>'')),
        (''tiles_catchments'', Dir
          [(''metadata.json'', File (Text metadata)),
           (''4'', Dir [(''10'', Dir [(''6.pbf'', File Unreadable)])]),
           (''6'', Dir [(''36'', Dir [(''23.pbf'', File Unreadable)])]),
           (''8'', Dir [(''146'', Dir [(''95.pbf'', File Unreadable)])]),
           (''10'', Dir [(''604'', Dir [(''401.pbf'', File Unreadable)])])]),
        (''data_web'', Dir
          [(''turkey_provinces_web.geojson'', File (Text collection_text)),
           (''hydrorivers_tr_web_final.geojson'', File (Text rivers)),
           (''hydrolakes_tr_web.geojson'', File (Text collection_text))])])]"

definition site :: "string \<Rightarrow> node" where
  "site metadata = site_with metadata collection_text"

text \<open>The surroundings in which every check passes: the server answers 200.\<close>

definition good_env :: env where
  "good_env = \<lparr>cwd = site (metadata_text ''4''), has_requests = True, server = Response 200\<rparr>"

text \<open>The surroundings of the specification's end-to-end scenario: the metadata document
  of the scenario, every other file in place, and a server that answers 200.\<close>

definition spec_env :: env where
  "spec_env = \<lparr>cwd = site spec_metadata_text, has_requests = True, server = Response 200\<rparr>"


section \<open>Facts about the checks and the orchestrator\<close>

subsection \<open>The loop over the tests and the exit code\<close>

lemma run_tests_names: "map fst (snd (run_tests ts e)) = map fst ts"
  by (induction ts e rule: run_tests.induct) (auto split: prod.splits sum.splits)

lemma run_tests_values:
  "map snd (snd (run_tests ts e)) =
     map (\<lambda>t. case snd (snd t e) of Inl err \<Rightarrow> Some False | Inr r \<Rightarrow> r) ts"
  by (induction ts e rule: run_tests.induct) (auto split: prod.splits sum.splits)

lemma run_tests_output:
  "fst (run_tests ts e) =
     concat (map (\<lambda>t. fst (snd t e) @
                        (case snd (snd t e) of
                           Inl err \<Rightarrow> [Bad (fst t @ '' test failed with error'')]
                         | Inr r \<Rightarrow> [])) ts)"
  by (induction ts e rule: run_tests.induct) (auto split: prod.splits sum.splits)

lemma results_eq:
  "results lib e =
     [(''Local Files'', Some (snd (test_local_files (cwd e)))),
      (''Metadata Structure'', Some (snd (test_metadata_structure lib (cwd e)))),
      (''GeoJSON Files'', Some (snd (test_geojson_files lib (cwd e)))),
      (''Sample Tiles'', Some (snd (test_sample_tiles (cwd e)))),
      (''Tile Count'', Some (snd (count_tiles (cwd e)))),
      (''Web Server'', snd (test_web_server e))]"
  by (simp add: results_def tests_def returns_def split: prod.splits)

lemma summary_loop_counts:
  "snd (summary_loop rs p t) = (p + length (filter (\<lambda>r. snd r = Some True) rs), t + length rs)"
proof (induction rs arbitrary: p t)
  case Nil
  show ?case by simp
next
  case (Cons r rs)
  obtain n v where r: "r = (n, v)" by (cases r)
  show ?case
    using Cons [of "p + 1" "t + 1"] Cons [of p "t + 1"]
    by (cases v) (auto simp: r split: prod.splits)
qed

lemma main_exit:
  "snd (main lib e) =
     (case success_rate (length (filter (\<lambda>r. snd r = Some True) (results lib e))) (length (results lib e)) of
        Inl err \<Rightarrow> Inl err | Inr rate \<Rightarrow> Inr (snd (verdict rate)))"
proof -
  obtain out rs where r: "run_tests (tests lib) e = (out, rs)" by (cases "run_tests (tests lib) e")
  obtain ls p t where s: "summary_loop rs 0 0 = (ls, p, t)" by (cases "summary_loop rs 0 0") auto
  have "snd (summary_loop rs 0 0) = (length (filter (\<lambda>r. snd r = Some True) rs), length rs)"
    by (simp add: summary_loop_counts)
  with s have pt: "p = length (filter (\<lambda>r. snd r = Some True) rs)" "t = length rs" by simp_all
  show ?thesis
    by (simp add: main_def r s results_def pt Let_def split: sum.splits)
qed

lemma length_results: "length (results lib e) = 6"
  by (simp add: results_eq)

lemma pass_rate_eq:
  "pass_rate lib e = of_nat (length (filter (\<lambda>r. snd r = Some True) (results lib e))) / 6 * 100"
proof -
  obtain ls p t where s: "summary_loop (results lib e) 0 0 = (ls, p, t)"
    by (cases "summary_loop (results lib e) 0 0") auto
  have "snd (summary_loop (results lib e) 0 0) =
          (length (filter (\<lambda>r. snd r = Some True) (results lib e)), length (results lib e))"
    by (simp add: summary_loop_counts)
  with s show ?thesis by (simp add: pass_rate_def length_results)
qed

lemma main_exit_rate:
  "snd (main lib e) =
     Inr (if pass_rate lib e = 100 then 0 else if 80 \<le> pass_rate lib e then 1 else 2)"
  by (simp add: main_exit length_results success_rate_def verdict_def pass_rate_eq)

lemma exit_by_passed:
  "snd (main lib e) =
     Inr (let passed = length (filter (\<lambda>r. snd r = Some True) (results lib e))
          in if passed = 6 then 0 else if passed = 5 then 1 else 2)"
proof -
  let ?p = "length (filter (\<lambda>r. snd r = Some True) (results lib e))"
  have le: "?p \<le> 6" using length_filter_le [of _ "results lib e"] by (simp add: length_results)
  have a: "(of_nat ?p / 6 * 100 = (100::rat)) = (?p = 6)"
    by (simp add: field_simps) 
  have "(80 \<le> (of_nat ?p / 6 * 100 :: rat)) = ((480::rat) \<le> of_nat (100 * ?p))"
    by (simp add: field_simps)
  also have "\<dots> = (480 \<le> 100 * ?p)"
    by (metis of_nat_le_iff of_nat_numeral)
  also have "\<dots> = (5 \<le> ?p)" by arith
  finally have b: "(80 \<le> (of_nat ?p / 6 * 100 :: rat)) = (5 \<le> ?p)" .
  show ?thesis using le
    by (simp add: main_exit_rate pass_rate_eq a b Let_def)
qed

lemma exit_zero_iff:
  "(snd (main lib e) = Inr 0) = (map snd (results lib e) = replicate 6 (Some True))"
  by (auto simp add: exit_by_passed results_eq Let_def numeral_eq_Suc)

lemma rate_when_zero: "snd (main lib e) = Inr 0 \<Longrightarrow> pass_rate lib e = 100"
  by (simp add: main_exit_rate split: if_splits)

lemma main_last_line: "last (fst (main lib e)) = fst (verdict (pass_rate lib e))"
proof -
  obtain out rs where r: "run_tests (tests lib) e = (out, rs)" by (cases "run_tests (tests lib) e")
  obtain ls p t where s: "summary_loop rs 0 0 = (ls, p, t)" by (cases "summary_loop rs 0 0") auto
  have rs: "results lib e = rs" by (simp add: results_def r)
  have "snd (summary_loop rs 0 0) = (length (filter (\<lambda>r. snd r = Some True) rs), length rs)"
    by (simp add: summary_loop_counts)
  with s length_results [of lib e]
  have pt: "p = length (filter (\<lambda>r. snd r = Some True) rs)" "t = 6"
    by (simp_all add: rs)
  have rate: "pass_rate lib e = of_nat p / 6 * 100"
    by (simp add: pass_rate_def rs s pt(2))
  have m: "fst (main lib e) =
             ([Note ''Turkey Water Risk Atlas - Resource Verification Tests'',
               Note (replicate 60 (CHR ''=''))] @ out
              @ [Note (replicate 60 (CHR ''='')), Note ''TEST SUMMARY:''] @ ls
              @ [Stat ''Overall: tests passed'' [p, 6]]) @ [fst (verdict (of_nat p / 6 * 100))]"
    by (simp add: main_def r s Let_def success_rate_def pt(2))
  show ?thesis unfolding m rate by (rule last_snoc)
qed

lemma all_pass_iff:
  "(map snd (results lib e) = replicate 6 (Some True)) =
     (snd (test_local_files (cwd e)) \<and> snd (test_metadata_structure lib (cwd e))
      \<and> snd (test_geojson_files lib (cwd e)) \<and> snd (test_sample_tiles (cwd e))
      \<and> snd (count_tiles (cwd e)) \<and> snd (test_web_server e) = Some True)"
  by (simp add: results_eq numeral_eq_Suc)

lemma web_ignores_cwd: "test_web_server (e\<lparr>cwd := fs\<rparr>) = test_web_server e"
  by (simp add: test_web_server_def)

lemma web_result:
  "snd (test_web_server e) =
     (if \<not> has_requests e then None
      else case server e of Response c \<Rightarrow> Some (c = 200) | No_response \<Rightarrow> None)"
  by (simp add: test_web_server_def split: http.splits)

subsection \<open>What each check returns\<close>

lemma filter_length_all:
  "(length (filter P xs) = length xs) = (\<forall>x \<in> set xs. P x)"
proof (induction xs)
  case Nil
  show ?case by simp
next
  case (Cons x xs)
  have "length (filter P xs) \<le> length xs" by simp
  then have "length (filter P xs) \<noteq> Suc (length xs)" by arith
  then show ?case using Cons by (cases "P x") auto
qed

lemma local_result:
  "snd (test_local_files fs) = (\<forall>p \<in> set required_files. path_exists fs p)"
  by (auto simp add: test_local_files_def Let_def filter_empty_conv)

lemma tiles_loop_count:
  "snd (tiles_loop fs ps n) = n + length (filter (path_exists fs) ps)"
proof (induction ps arbitrary: n)
  case Nil
  show ?case by simp
next
  case (Cons p ps)
  show ?case
    using Cons [of "n + 1"] Cons [of n] by (auto split: prod.splits)
qed

lemma tiles_result:
  "snd (test_sample_tiles fs) = (\<forall>p \<in> set sample_tiles. path_exists fs p)"
proof -
  obtain out n where t: "tiles_loop fs sample_tiles 0 = (out, n)"
    by (cases "tiles_loop fs sample_tiles 0")
  have "snd (tiles_loop fs sample_tiles 0) = length (filter (path_exists fs) sample_tiles)"
    by (simp add: tiles_loop_count)
  with t have "n = length (filter (path_exists fs) sample_tiles)" by simp
  then show ?thesis
    by (simp add: test_sample_tiles_def t filter_length_all)
qed

lemma count_result:
  "snd (count_tiles fs) = (path_exists fs tiles_dir \<and> pbf_files fs \<noteq> [])"
  by (simp add: count_tiles_def Let_def)

lemma geojson_loop_eq:
  "geojson_loop lib fs ps v =
     (map (\<lambda>p. geojson_line p (geojson_file lib fs p)) ps,
      v \<and> (\<forall>p \<in> set ps. geojson_file lib fs p = Inr True))"
proof (induction ps arbitrary: v)
  case Nil
  show ?case by simp
next
  case (Cons p ps)
  show ?case
    by (cases "geojson_file lib fs p")
       (auto simp add: Cons geojson_line_def split: bool.splits)
qed

lemma geojson_result:
  "test_geojson_files lib fs =
     (Note ''Testing GeoJSON files...'' # map (\<lambda>p. geojson_line p (geojson_file lib fs p)) geojson_files,
      \<forall>p \<in> set geojson_files. geojson_file lib fs p = Inr True)"
  by (simp add: test_geojson_files_def geojson_loop_eq)

lemma print_checks_eq:
  "print_checks cs n = (map check_line cs, n + length (filter fst cs))"
  by (induction cs arbitrary: n) (auto simp add: check_line_def)

lemma metadata_result:
  "test_metadata_structure lib fs =
     (case all_checks lib fs of
        Inl e \<Rightarrow> ([Note ''Testing metadata structure...'', Bad ''Error reading metadata''], False)
      | Inr cs \<Rightarrow> (Note ''Testing metadata structure...'' # map check_line cs, \<forall>c \<in> set cs. fst c))"
  by (simp add: test_metadata_structure_def print_checks_eq filter_length_all split: sum.splits)

lemma load_depends_on_walk:
  "walk p fs' = walk p fs \<Longrightarrow> json_load lib fs' p = json_load lib fs p"
  by (simp add: json_load_def read_text_def)

lemma load_missing: "walk p fs = None \<Longrightarrow> json_load lib fs p = Inl OSError"
  by (simp add: json_load_def read_text_def)

lemma metadata_depends_on_load:
  "json_load lib fs' metadata_path = json_load lib fs metadata_path
     \<Longrightarrow> test_metadata_structure lib fs' = test_metadata_structure lib fs"
  by (simp add: test_metadata_structure_def all_checks_def)

lemma metadata_missing:
  "\<not> path_exists fs metadata_path \<Longrightarrow> snd (test_metadata_structure lib fs) = False"
  by (simp add: metadata_result all_checks_def load_missing path_exists_def)

lemma geojson_missing:
  "q \<in> set geojson_files \<Longrightarrow> \<not> path_exists fs q \<Longrightarrow> snd (test_geojson_files lib fs) = False"
proof -
  assume q: "q \<in> set geojson_files" and "\<not> path_exists fs q"
  then have "geojson_file lib fs q \<noteq> Inr True"
    by (simp add: geojson_file_def load_missing path_exists_def)
  with q have "\<not> (\<forall>p \<in> set geojson_files. geojson_file lib fs p = Inr True)" by blast
  then show ?thesis by (simp add: geojson_result)
qed

subsection \<open>Paths in the directory tree\<close>

lemma walk_append:
  "walk (p @ q) n = (case walk p n of None \<Rightarrow> None | Some d \<Rightarrow> walk q d)"
proof (induction p arbitrary: n)
  case Nil
  show ?case by simp
next
  case (Cons x p)
  show ?case by (cases n) (auto simp add: Cons split: option.splits)
qed

lemma rglob_mem:
  "walk rel d = Some x \<Longrightarrow> rel \<noteq> [] \<Longrightarrow> ends_with ''.pbf'' (last rel)
     \<Longrightarrow> rel \<in> set (rglob_pbf d)"
proof (induction rel arbitrary: d)
  case Nil
  then show ?case by simp
next
  case (Cons r rs)
  from Cons.prems(1) obtain entries n where
    d: "d = Dir entries" and m: "map_of entries r = Some n" and w: "walk rs n = Some x"
    by (cases d) (auto split: option.splits)
  from m have mem: "(r, n) \<in> set entries" by (rule map_of_SomeD)
  show ?case
  proof (cases "rs = []")
    case True
    with Cons.prems(3) have "ends_with ''.pbf'' r" by simp
    with mem True show ?thesis by (force simp add: d)
  next
    case False
    with Cons.prems(3) have "ends_with ''.pbf'' (last rs)" by simp
    with Cons.IH [OF w False] have "rs \<in> set (rglob_pbf n)" by simp
    with mem show ?thesis by (force simp add: d)
  qed
qed

lemma count_from_tile:
  assumes "path_exists fs (tiles_dir @ rel)" and "rel \<noteq> []" and "ends_with ''.pbf'' (last rel)"
  shows "snd (count_tiles fs)"
proof -
  from assms(1) obtain d x where d: "walk tiles_dir fs = Some d" and x: "walk rel d = Some x"
    by (auto simp add: path_exists_def walk_append split: option.splits)
  from rglob_mem [OF x assms(2) assms(3)] have "rglob_pbf d \<noteq> []" by auto
  with d show ?thesis by (simp add: count_result path_exists_def pbf_files_def)
qed

lemma map_of_filter_key:
  "map_of (filter (\<lambda>(k, v). k \<noteq> x) es) b = (if b = x then None else map_of es b)"
  by (induction es) auto

lemma map_of_map_key:
  "map_of (map (\<lambda>(k, v). if k = x then (k, f v) else (k, v)) es) b =
     (if b = x then map_option f (map_of es x) else map_of es b)"
  by (induction es) auto

lemma walk_remove_self: "p \<noteq> [] \<Longrightarrow> walk p (remove_path p n) = None"
proof (induction p n rule: remove_path.induct)
  case (4 x y ys entries)
  show ?case
  proof (cases "map_of entries x")
    case None
    then show ?thesis by (simp add: map_of_map_key)
  next
    case (Some v)
    then have "(x, v) \<in> set entries" by (rule map_of_SomeD)
    with 4 Some show ?thesis by (simp add: map_of_map_key)
  qed
qed (simp_all add: map_of_filter_key)

lemma walk_remove_other:
  "\<not> prefix p q \<Longrightarrow> \<not> prefix q p \<Longrightarrow> walk q (remove_path p n) = walk q n"
proof (induction p n arbitrary: q rule: remove_path.induct)
  case (1 n)
  then show ?case by simp
next
  case (2 x xs c)
  then show ?case by (cases q) auto
next
  case (3 x entries)
  then show ?case by (cases q) (auto simp add: map_of_filter_key)
next
  case (4 x y ys entries)
  from 4(3) obtain b q' where q: "q = b # q'" by (cases q) auto
  show ?case
  proof (cases "b = x")
    case False
    then show ?thesis by (simp add: q map_of_map_key)
  next
    case True
    show ?thesis
    proof (cases "map_of entries x")
      case None
      then show ?thesis by (simp add: q True map_of_map_key)
    next
      case (Some v)
      then have mem: "(x, v) \<in> set entries" by (rule map_of_SomeD)
      from 4(2,3) have "\<not> prefix (y # ys) q'" "\<not> prefix q' (y # ys)"
        by (simp_all add: q True)
      with 4(1) [OF mem] show ?thesis
        by (simp add: q True map_of_map_key Some)
    qed
  qed
qed

subsection \<open>Deleting a required file\<close>

lemma diverge_meta_all:
  "\<forall>p \<in> set required_files. p = metadata_path \<or> (\<not> prefix p metadata_path \<and> \<not> prefix metadata_path p)"
  by (simp add: required_files_def metadata_path_def)

lemma diverge_geo_all:
  "\<forall>p \<in> set required_files. \<forall>q \<in> set geojson_files. p = q \<or> (\<not> prefix p q \<and> \<not> prefix q p)"
  by (simp add: required_files_def geojson_files_def)

lemma diverge_tile_all:
  "\<forall>p \<in> set required_files. \<forall>q \<in> set sample_tiles. \<not> prefix p q \<and> \<not> prefix q p"
  by (simp add: required_files_def sample_tiles_def)

lemma diverge_meta:
  "p \<in> set required_files \<Longrightarrow> p \<noteq> metadata_path
     \<Longrightarrow> \<not> prefix p metadata_path \<and> \<not> prefix metadata_path p"
  using diverge_meta_all by blast

lemma diverge_geo:
  "p \<in> set required_files \<Longrightarrow> q \<in> set geojson_files \<Longrightarrow> p \<noteq> q
     \<Longrightarrow> \<not> prefix p q \<and> \<not> prefix q p"
  using diverge_geo_all by blast

lemma diverge_tile:
  "p \<in> set required_files \<Longrightarrow> q \<in> set sample_tiles \<Longrightarrow> \<not> prefix p q \<and> \<not> prefix q p"
  using diverge_tile_all by blast

lemma required_nonempty: "p \<in> set required_files \<Longrightarrow> p \<noteq> []"
  by (auto simp add: required_files_def)

lemma results_after_remove:
  assumes pass: "map snd (results lib e) = replicate 6 (Some True)"
    and p: "p \<in> set required_files"
  shows "results lib (e\<lparr>cwd := remove_path p (cwd e)\<rparr>) =
           [(''Local Files'', Some False),
            (''Metadata Structure'', Some (p \<noteq> metadata_path)),
            (''GeoJSON Files'', Some (p \<notin> set geojson_files)),
            (''Sample Tiles'', Some True),
            (''Tile Count'', Some True),
            (''Web Server'', Some True)]"
proof -
  let ?fs = "cwd e"
  let ?fs' = "remove_path p (cwd e)"
  from pass have M: "snd (test_metadata_structure lib ?fs)"
    and G: "\<forall>q \<in> set geojson_files. geojson_file lib ?fs q = Inr True"
    and T: "\<forall>q \<in> set sample_tiles. path_exists ?fs q"
    and W: "snd (test_web_server e) = Some True"
    by (simp_all add: all_pass_iff geojson_result tiles_result)
  have gone: "\<not> path_exists ?fs' p"
    by (simp add: path_exists_def walk_remove_self required_nonempty [OF p])
  with p have local: "snd (test_local_files ?fs') = False"
    by (auto simp add: local_result)
  have meta: "snd (test_metadata_structure lib ?fs') = (p \<noteq> metadata_path)"
  proof (cases "p = metadata_path")
    case True
    with gone show ?thesis by (simp add: metadata_missing)
  next
    case False
    with diverge_meta [OF p] have "walk metadata_path ?fs' = walk metadata_path ?fs"
      by (simp add: walk_remove_other)
    then have "test_metadata_structure lib ?fs' = test_metadata_structure lib ?fs"
      by (intro metadata_depends_on_load load_depends_on_walk)
    with M False show ?thesis by simp
  qed
  have geo: "snd (test_geojson_files lib ?fs') = (p \<notin> set geojson_files)"
  proof (cases "p \<in> set geojson_files")
    case True
    with gone show ?thesis by (simp add: geojson_missing)
  next
    case False
    have "geojson_file lib ?fs' q = Inr True" if q: "q \<in> set geojson_files" for q
    proof -
      from q False have "p \<noteq> q" by auto
      with diverge_geo [OF p q] have "walk q ?fs' = walk q ?fs" by (simp add: walk_remove_other)
      then have "json_load lib ?fs' q = json_load lib ?fs q" by (rule load_depends_on_walk)
      with G q show ?thesis by (simp add: geojson_file_def)
    qed
    with False show ?thesis by (simp add: geojson_result)
  qed
  have tile: "path_exists ?fs' q" if q: "q \<in> set sample_tiles" for q
  proof -
    from diverge_tile [OF p q] have "walk q ?fs' = walk q ?fs" by (simp add: walk_remove_other)
    with T q show ?thesis by (simp add: path_exists_def)
  qed
  then have tiles: "snd (test_sample_tiles ?fs')" by (simp add: tiles_result)
  have "path_exists ?fs' (tiles_dir @ [''4'', ''10'', ''6.pbf''])"
    using tile [of "[''docs'', ''tiles_catchments'', ''4'', ''10'', ''6.pbf'']"]
    by (simp add: sample_tiles_def tiles_dir_def)
  then have count: "snd (count_tiles ?fs')"
    by (rule count_from_tile) (simp_all add: ends_with_def)
  have web: "snd (test_web_server (e\<lparr>cwd := ?fs'\<rparr>)) = Some True"
    using W by (simp add: web_ignores_cwd)
  show ?thesis
    by (simp add: results_eq local meta geo tiles count web)
qed

lemma required_kinds:
  "\<forall>p \<in> set required_files.
     (p = [''docs'', ''index.html''] \<and> p \<noteq> metadata_path \<and> p \<notin> set geojson_files)
     \<or> (p \<noteq> [''docs'', ''index.html''] \<and> (p = metadata_path) \<noteq> (p \<in> set geojson_files))"
  by (simp add: required_files_def metadata_path_def geojson_files_def)

lemma exit_after_remove:
  assumes pass: "map snd (results lib e) = replicate 6 (Some True)"
    and p: "p \<in> set required_files"
  shows "snd (main lib (e\<lparr>cwd := remove_path p (cwd e)\<rparr>)) =
           Inr (if p = [''docs'', ''index.html''] then 1 else 2)"
proof -
  from required_kinds p
  have "(p = [''docs'', ''index.html''] \<and> p \<noteq> metadata_path \<and> p \<notin> set geojson_files)
     \<or> (p \<noteq> [''docs'', ''index.html''] \<and> (p = metadata_path) \<noteq> (p \<in> set geojson_files))"
    by blast
  then show ?thesis
  proof
    assume a: "p = [''docs'', ''index.html''] \<and> p \<noteq> metadata_path \<and> p \<notin> set geojson_files"
    then have a2: "p \<noteq> metadata_path" and a3: "p \<notin> set geojson_files" by blast+
    have "results lib (e\<lparr>cwd := remove_path p (cwd e)\<rparr>) =
           [(''Local Files'', Some False), (''Metadata Structure'', Some True),
            (''GeoJSON Files'', Some True), (''Sample Tiles'', Some True),
            (''Tile Count'', Some True), (''Web Server'', Some True)]"
      unfolding results_after_remove [OF pass p] using a2 a3 by simp
    moreover from a have "p = [''docs'', ''index.html'']" by blast
    ultimately show ?thesis by (simp add: exit_by_passed)
  next
    assume a: "p \<noteq> [''docs'', ''index.html''] \<and> (p = metadata_path) \<noteq> (p \<in> set geojson_files)"
    then have a1: "p \<noteq> [''docs'', ''index.html'']"
      and a2: "(p = metadata_path) \<noteq> (p \<in> set geojson_files)" by blast+
    have "length (filter (\<lambda>r. snd r = Some True)
                 (results lib (e\<lparr>cwd := remove_path p (cwd e)\<rparr>))) = 4"
      unfolding results_after_remove [OF pass p] using a2
      by (cases "p = metadata_path") simp_all
    with a1 show ?thesis by (simp add: exit_by_passed)
  qed
qed

subsection \<open>The sub-checks of the metadata check\<close>

lemma key_in_items: "(k \<in> fst ` set items) = (map_of items k \<noteq> None)"
  by (simp add: map_of_eq_None_iff)

lemma expected_layers:
  assumes emb: "map_of items ''json'' = Some (JStr embedded)"
    and layers: "json_loads lib embedded = Some (JObj members)"
    and vl: "map_of members ''vector_layers'' = Some (JArr (JObj layer # rest))"
    and lid: "map_of layer ''id'' = Some (JStr layer_id)"
  shows "embedded_layers lib (JObj items) = Inr (JArr (JObj layer # rest))"
    and "layer_checks (JArr (JObj layer # rest)) =
           Inr [(True, ''Has vector layers in JSON''), (True, ''Correct layer ID'')]"
  by (simp_all add: embedded_layers_def key_in_items emb layers vl
        layer_checks_def has_layers_def layer_id_ok_def lid)

lemma full_metadata_checks:
  assumes meta: "json_load lib fs metadata_path = Inr (JObj items)"
    and name: "map_of items ''name'' = Some nm"
    and fmt: "map_of items ''format'' = Some (JStr ''pbf'')"
    and lo: "map_of items ''minzoom'' = Some (JInt 4)"
    and hi: "map_of items ''maxzoom'' = Some (JInt 10)"
    and emb: "map_of items ''json'' = Some (JStr embedded)"
    and layers: "json_loads lib embedded =
                   Some (JObj [(''vector_layers'', JArr [JObj [(''id'', JStr layer_id)]])])"
  shows "snd (test_metadata_structure lib fs)"
proof -
  have b: "basic_checks lib (JObj items) =
             Inr [(True, ''Has name field''), (True, ''Format is pbf''),
                  (True, ''Min zoom is 4''), (True, ''Max zoom is 10'')]"
    by (simp add: basic_checks_def key_in_items name fmt lo hi)
  have v: "embedded_layers lib (JObj items) = Inr (JArr [JObj [(''id'', JStr layer_id)]])"
    by (simp add: embedded_layers_def key_in_items emb layers)
  have l: "layer_checks (JArr [JObj [(''id'', JStr layer_id)]]) =
             Inr [(True, ''Has vector layers in JSON''), (True, ''Correct layer ID'')]"
    by (simp add: layer_checks_def has_layers_def layer_id_ok_def)
  show ?thesis
    by (simp add: metadata_result all_checks_def meta b v l)
qed

lemma basic_pass_iff:
  "(\<exists>basic. basic_checks lib metadata = Inr basic \<and> (\<forall>c \<in> set basic. fst c)) =
     (\<exists>items lo hi. metadata = JObj items
        \<and> map_of items ''name'' \<noteq> None
        \<and> map_of items ''format'' = Some (JStr ''pbf'')
        \<and> map_of items ''minzoom'' = Some lo \<and> py_int lib lo = Inr 4
        \<and> map_of items ''maxzoom'' = Some hi \<and> py_int lib hi = Inr 10)"
proof (cases metadata)
  case (JObj items)
  show ?thesis
    by (auto simp add: JObj basic_checks_def key_in_items split: sum.splits option.splits)
qed (simp_all add: basic_checks_def)

lemma layer_pass_iff:
  "(\<exists>l. layer_checks vl = Inr l \<and> (\<forall>c \<in> set l. fst c)) =
     (\<exists>layer rest. vl = JArr (JObj layer # rest) \<and> map_of layer ''id'' = Some (JStr layer_id))"
proof (cases vl)
  case (JArr xs)
  show ?thesis
  proof (cases xs)
    case Nil
    then show ?thesis by (simp add: JArr layer_checks_def has_layers_def layer_id_ok_def)
  next
    case (Cons x rest)
    show ?thesis
      by (cases x)
         (auto simp add: JArr Cons layer_checks_def has_layers_def layer_id_ok_def
            split: option.splits)
  qed
next
  case (JStr s)
  then show ?thesis
    by (cases s) (simp_all add: layer_checks_def has_layers_def layer_id_ok_def)
next
  case (JObj items)
  then show ?thesis
    by (cases items) (simp_all add: layer_checks_def has_layers_def layer_id_ok_def)
qed (simp_all add: layer_checks_def has_layers_def layer_id_ok_def)

lemma embedded_layers_obj:
  "embedded_layers lib (JObj items) =
     Inr (case map_of items ''json'' of
            None \<Rightarrow> JNull
          | Some v \<Rightarrow>
              (case py_loads lib v of
                 Inl e \<Rightarrow> JNull
               | Inr d \<Rightarrow> (case py_get d ''vector_layers'' (JArr []) of
                              Inl e \<Rightarrow> JNull | Inr vl \<Rightarrow> vl)))"
  by (auto simp add: embedded_layers_def key_in_items split: option.splits sum.splits)

lemma embedded_layers_nonempty_iff:
  "(embedded_layers lib (JObj items) = Inr (JArr (x # xs))) =
     (\<exists>embedded inner. map_of items ''json'' = Some (JStr embedded)
        \<and> json_loads lib embedded = Some (JObj inner)
        \<and> map_of inner ''vector_layers'' = Some (JArr (x # xs)))"
proof (cases "map_of items ''json''")
  case None
  then show ?thesis by (simp add: embedded_layers_obj)
next
  case (Some v)
  note v = this
  show ?thesis
  proof (cases v)
    case (JStr t)
    show ?thesis
    proof (cases "json_loads lib t")
      case None
      then show ?thesis by (simp add: embedded_layers_obj v JStr)
    next
      case (Some d)
      note d = this
      show ?thesis
        by (cases d)
           (auto simp add: embedded_layers_obj v JStr d
              split: option.splits)
    qed
  qed (simp_all add: embedded_layers_obj v)
qed

lemma all_checks_Inr_iff:
  "(all_checks lib fs = Inr cs) =
     (\<exists>metadata basic vl l. json_load lib fs metadata_path = Inr metadata
        \<and> basic_checks lib metadata = Inr basic
        \<and> embedded_layers lib metadata = Inr vl
        \<and> layer_checks vl = Inr l \<and> cs = basic @ l)"
  by (auto simp add: all_checks_def split: sum.splits)

lemma metadata_pass_iff:
  "snd (test_metadata_structure lib fs) =
     (\<exists>items lo hi t inner layer rest.
        json_load lib fs metadata_path = Inr (JObj items)
        \<and> map_of items ''name'' \<noteq> None
        \<and> map_of items ''format'' = Some (JStr ''pbf'')
        \<and> map_of items ''minzoom'' = Some lo \<and> py_int lib lo = Inr 4
        \<and> map_of items ''maxzoom'' = Some hi \<and> py_int lib hi = Inr 10
        \<and> map_of items ''json'' = Some (JStr t)
        \<and> json_loads lib t = Some (JObj inner)
        \<and> map_of inner ''vector_layers'' = Some (JArr (JObj layer # rest))
        \<and> map_of layer ''id'' = Some (JStr layer_id))"
  (is "?L = ?R")
proof
  assume ?L
  then obtain cs where cs: "all_checks lib fs = Inr cs" and ok: "\<forall>c \<in> set cs. fst c"
    by (auto simp add: metadata_result split: sum.splits)
  from cs obtain metadata basic vl l where
    m: "json_load lib fs metadata_path = Inr metadata"
    and b: "basic_checks lib metadata = Inr basic"
    and v: "embedded_layers lib metadata = Inr vl"
    and l: "layer_checks vl = Inr l" and app: "cs = basic @ l"
    unfolding all_checks_Inr_iff by blast
  from ok app have okb: "\<forall>c \<in> set basic. fst c" and okl: "\<forall>c \<in> set l. fst c" by auto
  from b okb have "\<exists>basic. basic_checks lib metadata = Inr basic \<and> (\<forall>c \<in> set basic. fst c)"
    by blast
  then obtain items lo hi where i: "metadata = JObj items"
    "map_of items ''name'' \<noteq> None" "map_of items ''format'' = Some (JStr ''pbf'')"
    "map_of items ''minzoom'' = Some lo" "py_int lib lo = Inr 4"
    "map_of items ''maxzoom'' = Some hi" "py_int lib hi = Inr 10"
    unfolding basic_pass_iff by blast
  from l okl have "\<exists>l. layer_checks vl = Inr l \<and> (\<forall>c \<in> set l. fst c)" by blast
  then obtain layer rest where vl: "vl = JArr (JObj layer # rest)"
    and lid: "map_of layer ''id'' = Some (JStr layer_id)"
    unfolding layer_pass_iff by blast
  from v have "embedded_layers lib (JObj items) = Inr (JArr (JObj layer # rest))"
    by (simp add: i(1) vl)
  then obtain t inner where "map_of items ''json'' = Some (JStr t)"
    "json_loads lib t = Some (JObj inner)"
    "map_of inner ''vector_layers'' = Some (JArr (JObj layer # rest))"
    unfolding embedded_layers_nonempty_iff by blast
  with m i lid show ?R by blast
next
  assume ?R
  then obtain items lo hi t inner layer rest where
    m: "json_load lib fs metadata_path = Inr (JObj items)"
    and i: "map_of items ''name'' \<noteq> None" "map_of items ''format'' = Some (JStr ''pbf'')"
      "map_of items ''minzoom'' = Some lo" "py_int lib lo = Inr 4"
      "map_of items ''maxzoom'' = Some hi" "py_int lib hi = Inr 10"
    and e: "map_of items ''json'' = Some (JStr t)" "json_loads lib t = Some (JObj inner)"
      "map_of inner ''vector_layers'' = Some (JArr (JObj layer # rest))"
    and lid: "map_of layer ''id'' = Some (JStr layer_id)"
    by blast
  have b: "basic_checks lib (JObj items) =
             Inr [(True, ''Has name field''), (True, ''Format is pbf''),
                  (True, ''Min zoom is 4''), (True, ''Max zoom is 10'')]"
    using i by (simp add: basic_checks_def key_in_items)
  from expected_layers [OF e lid] m b show ?L
    by (simp add: metadata_result all_checks_def)
qed

lemma zoom_lines:
  assumes "all_checks lib fs = Inr cs"
  shows "\<exists>items. json_load lib fs metadata_path = Inr (JObj items)
     \<and> cs ! 2 = (py_int lib (case map_of items ''minzoom'' of None \<Rightarrow> JInt 0 | Some v \<Rightarrow> v) = Inr 4,
                 ''Min zoom is 4'')
     \<and> cs ! 3 = (py_int lib (case map_of items ''maxzoom'' of None \<Rightarrow> JInt 0 | Some v \<Rightarrow> v) = Inr 10,
                 ''Max zoom is 10'')"
proof -
  from assms obtain metadata basic vl l where
    m: "json_load lib fs metadata_path = Inr metadata"
    and b: "basic_checks lib metadata = Inr basic" and app: "cs = basic @ l"
    unfolding all_checks_Inr_iff by blast
  from b obtain items where i: "metadata = JObj items"
    by (cases metadata) (simp_all add: basic_checks_def)
  from b have "basic ! 2 = (py_int lib (case map_of items ''minzoom'' of None \<Rightarrow> JInt 0 | Some v \<Rightarrow> v) = Inr 4,
                 ''Min zoom is 4'')
     \<and> basic ! 3 = (py_int lib (case map_of items ''maxzoom'' of None \<Rightarrow> JInt 0 | Some v \<Rightarrow> v) = Inr 10,
                 ''Max zoom is 10'') \<and> length basic = 4"
    by (auto simp add: i basic_checks_def split: sum.splits)
  with m i app show ?thesis by (simp add: nth_append)
qed

lemma py_get_error: "py_get x k d = Inl err \<Longrightarrow> err = AttributeError"
  by (cases x) simp_all

lemma layer_id_never_out_of_range: "layer_id_ok v \<noteq> Inl IndexError"
proof (cases v)
  case (JArr xs)
  then show ?thesis
    by (cases xs) (auto simp add: layer_id_ok_def split: sum.splits dest: py_get_error)
next
  case (JStr s)
  then show ?thesis by (cases s) (simp_all add: layer_id_ok_def)
next
  case (JObj items)
  then show ?thesis by (cases items) (simp_all add: layer_id_ok_def)
next
  case (JFloat f)
  then show ?thesis by (simp add: layer_id_ok_def)
next
  case (JInt n)
  then show ?thesis by (simp add: layer_id_ok_def)
next
  case (JBool b)
  then show ?thesis by (simp add: layer_id_ok_def)
qed (simp add: layer_id_ok_def)

lemma no_layers_value:
  assumes "map_of items ''json'' = None
     \<or> (\<exists>v err. map_of items ''json'' = Some v \<and> py_loads lib v = Inl err)
     \<or> (\<exists>v inner. map_of items ''json'' = Some v \<and> py_loads lib v = Inr (JObj inner)
           \<and> (map_of inner ''vector_layers'' = None
                \<or> map_of inner ''vector_layers'' = Some (JArr [])))"
  shows "embedded_layers lib (JObj items) = Inr JNull
         \<or> embedded_layers lib (JObj items) = Inr (JArr [])"
  using assms by (auto simp add: embedded_layers_obj)

lemma no_layers_checks:
  assumes "vl = JNull \<or> vl = JArr []"
  shows "has_layers vl = Inr False" and "layer_id_ok vl = Inr False"
    and "layer_checks vl =
           Inr [(False, ''Has vector layers in JSON''), (False, ''Correct layer ID'')]"
  using assms by (auto simp add: has_layers_def layer_id_ok_def layer_checks_def)

subsection \<open>The example surroundings, evaluated\<close>

lemmas text_defs = quoted_def escaped_def layers_text_def layers_text_escaped_def
  spec_metadata_text_def metadata_text_def null_zoom_text_def plain_metadata_text_def
  collection_text_def layer_id_def

lemma site_local: "test_local_files (site m) =
  ([Note ''Testing local files in docs/ directory...'', Ok ''All required files exist''], True)"
  by (simp add: test_local_files_def required_files_def path_exists_def site_def site_with_def)

lemma site_tiles: "snd (test_sample_tiles (site m)) = True"
  by (simp add: tiles_result sample_tiles_def path_exists_def site_def site_with_def)

lemma site_count: "snd (count_tiles (site m)) = True"
  by (simp add: count_result tiles_dir_def path_exists_def pbf_files_def site_def site_with_def ends_with_def)

lemma site_read_geojson:
  "p \<in> set geojson_files \<Longrightarrow> json_load example_lib (site m) p = Inr collection_doc"
  by (auto simp add: geojson_files_def json_load_def read_text_def site_def site_with_def example_lib_def text_defs)

lemma site_geojson: "snd (test_geojson_files example_lib (site m)) = True"
  by (simp add: geojson_result geojson_file_def site_read_geojson
        geojson_type_ok_def collection_doc_def)

lemma site_exists:
  "list_all (path_exists (site m)) required_files"
  "list_all (path_exists (site m)) sample_tiles"
  by (simp_all add: required_files_def sample_tiles_def path_exists_def site_def site_with_def)

lemma site_load_metadata:
  "json_load example_lib (site m) metadata_path =
     (case json_loads example_lib m of None \<Rightarrow> Inl JSONDecodeError | Some v \<Rightarrow> Inr v)"
  by (simp add: json_load_def read_text_def site_def site_with_def metadata_path_def)

lemma loads_named: "json_loads example_lib (metadata_text ''4'') = Some (metadata_doc (JInt 4))"
  by (simp add: example_lib_def text_defs)

lemma loads_five: "json_loads example_lib (metadata_text ''5'') = Some (metadata_doc (JInt 5))"
  by (simp add: example_lib_def text_defs)

lemma loads_null: "json_loads example_lib (metadata_text ''null'') = Some (metadata_doc JNull)"
  by (simp add: example_lib_def text_defs)

lemma loads_fraction:
  "json_loads example_lib (metadata_text ''4.5'') = Some (metadata_doc (JFloat (Finite (9 / 2))))"
  by (simp add: example_lib_def text_defs)

lemma loads_plain: "json_loads example_lib plain_metadata_text = Some plain_metadata_doc"
  by (simp add: example_lib_def text_defs)

lemma loads_null_zoom:
  "json_loads example_lib null_zoom_text = Some (JObj [(''minzoom'', JNull)])"
  by (simp add: example_lib_def text_defs)

lemma loads_layers: "json_loads example_lib layers_text = Some layers_doc"
  by (simp add: example_lib_def text_defs)

lemma good_metadata: "test_metadata_structure example_lib (site (metadata_text ''4'')) =
   ([Note ''Testing metadata structure...'', Ok ''Has name field'',
   Ok ''Format is pbf'', Ok ''Min zoom is 4'', Ok ''Max zoom is 10'',
   Ok ''Has vector layers in JSON'', Ok ''Correct layer ID''],
  True)"
  by (simp add: test_metadata_structure_def all_checks_def site_load_metadata loads_named
      metadata_doc_def basic_checks_def embedded_layers_def loads_layers layers_doc_def
      layer_checks_def has_layers_def layer_id_ok_def)

lemma good_all_checks:
  "all_checks example_lib (site (metadata_text ''4'')) =
     Inr [(True, ''Has name field''), (True, ''Format is pbf''), (True, ''Min zoom is 4''),
          (True, ''Max zoom is 10''), (True, ''Has vector layers in JSON''),
          (True, ''Correct layer ID'')]"
  by (simp add: all_checks_def site_load_metadata loads_named
      metadata_doc_def basic_checks_def embedded_layers_def loads_layers layers_doc_def
      layer_checks_def has_layers_def layer_id_ok_def)

lemma good_results: "results example_lib good_env =
  [(''Local Files'', Some True), (''Metadata Structure'', Some True),
  (''GeoJSON Files'', Some True), (''Sample Tiles'', Some True),
  (''Tile Count'', Some True), (''Web Server'', Some True)]"
  by (simp add: results_eq good_env_def site_local site_tiles site_count site_geojson good_metadata
     test_web_server_def)

lemma good_checks:
  "snd (test_local_files (cwd good_env)) = True"
  "snd (test_metadata_structure example_lib (cwd good_env)) = True"
  "snd (test_geojson_files example_lib (cwd good_env)) = True"
  "snd (test_sample_tiles (cwd good_env)) = True"
  "snd (count_tiles (cwd good_env)) = True"
  "snd (test_web_server good_env) = Some True"
  by (simp_all add: good_env_def site_local site_tiles site_count site_geojson good_metadata
     test_web_server_def)

lemma good_all_pass: "map snd (results example_lib good_env) = replicate 6 (Some True)"
  by (simp add: good_results numeral_eq_Suc)

section \<open>The claims\<close>

text \<open>
  C1, as the code has it. When \<^verbatim>\<open>requests\<close> is missing or the request raises, the
  web-server check is skipped: its result is \<^verbatim>\<open>None\<close>, not \<^verbatim>\<open>False\<close>. The summary
  counts the skipped check in \<^verbatim>\<open>total\<close> all the same. So when the five other checks
  pass, the pass rate is 5/6 of 100, that is 83.3, and \<^verbatim>\<open>main\<close> returns the warning exit
  code 1.
\<close>

theorem skipped_web_check_counts_in_total:
  assumes skip: "\<not> has_requests e \<or> server e = No_response"
    and rest: "snd (test_local_files (cwd e))" "snd (test_metadata_structure lib (cwd e))"
      "snd (test_geojson_files lib (cwd e))" "snd (test_sample_tiles (cwd e))"
      "snd (count_tiles (cwd e))"
  shows "snd (test_web_server e) = None
         \<and> results lib e =
             [(''Local Files'', Some True), (''Metadata Structure'', Some True),
              (''GeoJSON Files'', Some True), (''Sample Tiles'', Some True),
              (''Tile Count'', Some True), (''Web Server'', None)]
         \<and> snd (snd (summary_loop (results lib e) 0 0)) = 6
         \<and> pass_rate lib e = 250 / 3
         \<and> snd (main lib e) = Inr 1"
proof -
  from skip have w: "snd (test_web_server e) = None"
    by (auto simp add: web_result)
  have r: "results lib e =
             [(''Local Files'', Some True), (''Metadata Structure'', Some True),
              (''GeoJSON Files'', Some True), (''Sample Tiles'', Some True),
              (''Tile Count'', Some True), (''Web Server'', None)]"
    using rest by (simp add: results_eq w)
  have t: "snd (snd (summary_loop (results lib e) 0 0)) = 6"
    by (simp add: summary_loop_counts length_results)
  show ?thesis
    using w t by (simp add: r exit_by_passed pass_rate_eq)
qed

text \<open>The example site with a server that cannot be reached.\<close>

theorem skipped_web_check_counts_in_total_witness:
  "server (good_env\<lparr>server := No_response\<rparr>) = No_response
   \<and> snd (test_web_server (good_env\<lparr>server := No_response\<rparr>)) = None
   \<and> results example_lib (good_env\<lparr>server := No_response\<rparr>) =
       [(''Local Files'', Some True), (''Metadata Structure'', Some True),
        (''GeoJSON Files'', Some True), (''Sample Tiles'', Some True),
        (''Tile Count'', Some True), (''Web Server'', None)]
   \<and> pass_rate example_lib (good_env\<lparr>server := No_response\<rparr>) = 250 / 3
   \<and> snd (main example_lib (good_env\<lparr>server := No_response\<rparr>)) = Inr 1"
proof -
  let ?e = "good_env\<lparr>server := No_response\<rparr>"
  have skip: "\<not> has_requests ?e \<or> server ?e = No_response" by simp
  have rest: "snd (test_local_files (cwd ?e))" "snd (test_metadata_structure example_lib (cwd ?e))"
      "snd (test_geojson_files example_lib (cwd ?e))" "snd (test_sample_tiles (cwd ?e))"
      "snd (count_tiles (cwd ?e))"
    using good_checks by simp_all
  show ?thesis
    using skipped_web_check_counts_in_total [OF skip rest] by simp
qed

text \<open>
  C1, as stated, fails: in the run where \<^verbatim>\<open>requests\<close> is missing and every other check
  passes, the pass rate is 250/3, not 100, and \<^verbatim>\<open>main\<close> returns 1, not 0.
\<close>

theorem skipped_web_server_exit_code:
  "results example_lib (good_env\<lparr>has_requests := False\<rparr>) =
     [(''Local Files'', Some True), (''Metadata Structure'', Some True),
      (''GeoJSON Files'', Some True), (''Sample Tiles'', Some True),
      (''Tile Count'', Some True), (''Web Server'', None)]
   \<and> pass_rate example_lib (good_env\<lparr>has_requests := False\<rparr>) = 250 / 3
   \<and> snd (main example_lib (good_env\<lparr>has_requests := False\<rparr>)) = Inr 1"
proof -
  have r: "results example_lib (good_env\<lparr>has_requests := False\<rparr>) =
     [(''Local Files'', Some True), (''Metadata Structure'', Some True),
      (''GeoJSON Files'', Some True), (''Sample Tiles'', Some True),
      (''Tile Count'', Some True), (''Web Server'', None)]"
    using good_checks by (simp add: results_eq test_web_server_def)
  show ?thesis
    by (simp add: r exit_by_passed pass_rate_eq)
qed

text \<open>
  C2, as the code has it. The scenario of the specification needs two more things to end
  with exit code 0: the metadata document has a \<^verbatim>\<open>name\<close> key, and the web-server check
  passes (the server answers 200). Then all six checks pass, \<^verbatim>\<open>main\<close> returns 0 and its
  last line says that all tests passed. The GeoJSON files are feature collections: objects
  whose \<^verbatim>\<open>type\<close> is \<^verbatim>\<open>FeatureCollection\<close>.
\<close>

theorem all_resources_present_exit_zero:
  assumes files: "\<forall>p \<in> set required_files. path_exists (cwd e) p"
    and meta: "json_load lib (cwd e) metadata_path = Inr (JObj items)"
    and name: "map_of items ''name'' = Some nm"
    and fmt: "map_of items ''format'' = Some (JStr ''pbf'')"
    and lo: "map_of items ''minzoom'' = Some (JInt 4)"
    and hi: "map_of items ''maxzoom'' = Some (JInt 10)"
    and emb: "map_of items ''json'' = Some (JStr embedded)"
    and layers: "json_loads lib embedded =
                   Some (JObj [(''vector_layers'', JArr [JObj [(''id'', JStr layer_id)]])])"
    and geo: "\<forall>p \<in> set geojson_files. \<exists>members.
                json_load lib (cwd e) p = Inr (JObj members)
                \<and> map_of members ''type'' = Some (JStr ''FeatureCollection'')"
    and tiles: "\<forall>p \<in> set sample_tiles. path_exists (cwd e) p"
    and web: "has_requests e" "server e = Response 200"
  shows "map snd (results lib e) = replicate 6 (Some True)
         \<and> snd (main lib e) = Inr 0
         \<and> last (fst (main lib e)) =
             Note ''All tests passed! Your water risk atlas is ready to deploy.''"
proof -
  have 1: "snd (test_local_files (cwd e))" using files by (simp add: local_result)
  have 2: "snd (test_metadata_structure lib (cwd e))"
    using meta name fmt lo hi emb layers by (rule full_metadata_checks)
  have "geojson_file lib (cwd e) p = Inr True" if p: "p \<in> set geojson_files" for p
  proof -
    from geo p obtain members where l: "json_load lib (cwd e) p = Inr (JObj members)"
      and t: "map_of members ''type'' = Some (JStr ''FeatureCollection'')" by blast
    show ?thesis
      by (simp add: geojson_file_def l geojson_type_ok_def key_in_items t)
  qed
  then have 3: "snd (test_geojson_files lib (cwd e))" by (simp add: geojson_result)
  have 4: "snd (test_sample_tiles (cwd e))" using tiles by (simp add: tiles_result)
  have "path_exists (cwd e) (tiles_dir @ [''4'', ''10'', ''6.pbf''])"
    using tiles by (simp add: sample_tiles_def tiles_dir_def)
  then have 5: "snd (count_tiles (cwd e))"
    by (rule count_from_tile) (simp_all add: ends_with_def)
  have 6: "snd (test_web_server e) = Some True" using web by (simp add: web_result)
  have all: "map snd (results lib e) = replicate 6 (Some True)"
    using 1 2 3 4 5 6 by (simp add: all_pass_iff)
  then have exit: "snd (main lib e) = Inr 0" by (simp add: exit_zero_iff)
  then have "pass_rate lib e = 100" by (rule rate_when_zero)
  then have "last (fst (main lib e)) =
               Note ''All tests passed! Your water risk atlas is ready to deploy.''"
    by (simp add: main_last_line verdict_def)
  with all exit show ?thesis by simp
qed

text \<open>The example site with the named metadata document and a server that answers 200.\<close>

theorem all_resources_present_exit_zero_witness:
  "list_all (path_exists (cwd good_env)) required_files
   \<and> json_load example_lib (cwd good_env) metadata_path = Inr (metadata_doc (JInt 4))
   \<and> json_loads example_lib layers_text = Some layers_doc
   \<and> list_all (\<lambda>p. json_load example_lib (cwd good_env) p = Inr collection_doc) geojson_files
   \<and> list_all (path_exists (cwd good_env)) sample_tiles
   \<and> has_requests good_env \<and> server good_env = Response 200
   \<and> map snd (results example_lib good_env) = replicate 6 (Some True)
   \<and> snd (main example_lib good_env) = Inr 0
   \<and> last (fst (main example_lib good_env)) =
       Note ''All tests passed! Your water risk atlas is ready to deploy.''"
proof -
  have files: "\<forall>p \<in> set required_files. path_exists (cwd good_env) p"
    and tiles: "\<forall>p \<in> set sample_tiles. path_exists (cwd good_env) p"
    using site_exists [of "metadata_text ''4''"] by (simp_all add: good_env_def list_all_iff)
  have meta: "json_load example_lib (cwd good_env) metadata_path =
                Inr (JObj [(''name'', JStr ''catchments''), (''format'', JStr ''pbf''),
                           (''minzoom'', JInt 4), (''maxzoom'', JInt 10),
                           (''json'', JStr layers_text)])"
    by (simp add: good_env_def site_load_metadata loads_named metadata_doc_def)
  have layers: "json_loads example_lib layers_text =
                  Some (JObj [(''vector_layers'', JArr [JObj [(''id'', JStr layer_id)]])])"
    by (simp add: loads_layers layers_doc_def)
  have geo: "\<forall>p \<in> set geojson_files. \<exists>members.
                json_load example_lib (cwd good_env) p = Inr (JObj members)
                \<and> map_of members ''type'' = Some (JStr ''FeatureCollection'')"
    by (simp add: good_env_def site_def site_read_geojson [unfolded site_def] collection_doc_def)
  have geo': "list_all (\<lambda>p. json_load example_lib (cwd good_env) p = Inr collection_doc)
                geojson_files"
    by (simp add: good_env_def site_def site_read_geojson [unfolded site_def] list_all_iff)
  have web: "has_requests good_env" "server good_env = Response 200"
    by (simp_all add: good_env_def)
  show ?thesis
    using all_resources_present_exit_zero
            [OF files meta _ _ _ _ _ layers geo tiles web, of "JStr ''catchments''"]
          files tiles meta geo' web
    by (simp add: list_all_iff loads_layers metadata_doc_def)
qed

text \<open>
  C2, as stated, fails: with exactly the metadata document of the scenario, which has no
  \<^verbatim>\<open>name\<close> key, the metadata check prints a failed line for the name and returns
  \<^verbatim>\<open>False\<close>; even with a server that answers 200, \<^verbatim>\<open>main\<close> returns 1.
\<close>

theorem spec_scenario_exit_code:
  "read_text (cwd spec_env) metadata_path = Inr spec_metadata_text
   \<and> json_loads example_lib spec_metadata_text = Some spec_metadata_doc
   \<and> json_loads example_lib layers_text = Some layers_doc
   \<and> list_all (path_exists (cwd spec_env)) required_files
   \<and> list_all (\<lambda>p. json_load example_lib (cwd spec_env) p = Inr collection_doc) geojson_files
   \<and> list_all (path_exists (cwd spec_env)) sample_tiles
   \<and> test_metadata_structure example_lib (cwd spec_env) =
       ([Note ''Testing metadata structure...'', Bad ''Has name field'', Ok ''Format is pbf'',
         Ok ''Min zoom is 4'', Ok ''Max zoom is 10'', Ok ''Has vector layers in JSON'',
         Ok ''Correct layer ID''], False)
   \<and> results example_lib spec_env =
       [(''Local Files'', Some True), (''Metadata Structure'', Some False),
        (''GeoJSON Files'', Some True), (''Sample Tiles'', Some True),
        (''Tile Count'', Some True), (''Web Server'', Some True)]
   \<and> snd (main example_lib spec_env) = Inr 1"
proof -
  have a: "read_text (cwd spec_env) metadata_path = Inr spec_metadata_text"
    by (simp add: spec_env_def read_text_def site_def site_with_def metadata_path_def)
  have b: "json_loads example_lib spec_metadata_text = Some spec_metadata_doc"
    by (simp add: example_lib_def text_defs)
  have c: "list_all (path_exists (cwd spec_env)) required_files"
          "list_all (path_exists (cwd spec_env)) sample_tiles"
    by (simp_all add: spec_env_def site_exists)
  have d: "list_all (\<lambda>p. json_load example_lib (cwd spec_env) p = Inr collection_doc)
             geojson_files"
    by (simp add: spec_env_def site_def site_read_geojson [unfolded site_def] list_all_iff)
  have m: "test_metadata_structure example_lib (cwd spec_env) =
       ([Note ''Testing metadata structure...'', Bad ''Has name field'', Ok ''Format is pbf'',
         Ok ''Min zoom is 4'', Ok ''Max zoom is 10'', Ok ''Has vector layers in JSON'',
         Ok ''Correct layer ID''], False)"
    by (simp add: spec_env_def metadata_result all_checks_def site_load_metadata b
          spec_metadata_doc_def basic_checks_def embedded_layers_def loads_layers layers_doc_def
          layer_checks_def has_layers_def layer_id_ok_def check_line_def)
  have r: "results example_lib spec_env =
       [(''Local Files'', Some True), (''Metadata Structure'', Some False),
        (''GeoJSON Files'', Some True), (''Sample Tiles'', Some True),
        (''Tile Count'', Some True), (''Web Server'', Some True)]"
    by (simp add: results_eq m)
       (simp add: spec_env_def site_local site_geojson site_tiles site_count web_result)
  have x: "snd (main example_lib spec_env) = Inr 1"
    by (simp add: exit_by_passed r)
  from a b c d m r x show ?thesis by (simp add: loads_layers)
qed

text \<open>
  C3. Every run of \<^verbatim>\<open>main\<close> returns an exit code, and the code is decided by the pass
  rate alone: 0 when the rate is 100, 1 when it is at least 80 and below 100, 2 when it is
  below 80. No other value is returned. The rate is always a quotient by the six tests, so
  the division never fails. In terms of the number of passed checks: 0 for six, 1 for five,
  2 for four or fewer.
\<close>

theorem exit_code_three_tiers:
  "snd (main lib e) =
     Inr (if pass_rate lib e = 100 then 0 else if 80 \<le> pass_rate lib e then 1 else 2)
   \<and> snd (main lib e) \<in> {Inr 0, Inr 1, Inr 2}
   \<and> snd (snd (summary_loop (results lib e) 0 0)) = 6
   \<and> snd (main lib e) =
       Inr (let passed = length (filter (\<lambda>r. snd r = Some True) (results lib e))
            in if passed = 6 then 0 else if passed = 5 then 1 else 2)"
proof -
  have "snd (snd (summary_loop (results lib e) 0 0)) = 6"
    by (simp add: summary_loop_counts length_results)
  moreover have "snd (main lib e) \<in> {Inr 0, Inr 1, Inr 2}"
    by (simp add: main_exit_rate)
  ultimately show ?thesis
    using main_exit_rate [of lib e] exit_by_passed [of lib e] by simp
qed

text \<open>
  C4, as the code has it. Starting from surroundings in which all six checks pass, deleting
  one required file makes every check that reads it fail and no other: the local-files check
  always, the metadata check too when the file is the metadata file, the GeoJSON check too
  when it is one of the three GeoJSON files. The exit code becomes 1 for
  \<^verbatim>\<open>docs/index.html\<close>, which one check covers, and 2 for the other four files, which
  two checks cover.
\<close>

theorem removing_required_file:
  assumes "map snd (results lib e) = replicate 6 (Some True)"
    and "p \<in> set required_files"
  shows "results lib (e\<lparr>cwd := remove_path p (cwd e)\<rparr>) =
           [(''Local Files'', Some False),
            (''Metadata Structure'', Some (p \<noteq> metadata_path)),
            (''GeoJSON Files'', Some (p \<notin> set geojson_files)),
            (''Sample Tiles'', Some True),
            (''Tile Count'', Some True),
            (''Web Server'', Some True)]
         \<and> snd (main lib (e\<lparr>cwd := remove_path p (cwd e)\<rparr>)) =
             Inr (if p = [''docs'', ''index.html''] then 1 else 2)"
  using results_after_remove [OF assms] exit_after_remove [OF assms] by simp

text \<open>Deleting \<^verbatim>\<open>docs/index.html\<close> from the example site.\<close>

theorem removing_required_file_witness:
  "map snd (results example_lib good_env) = replicate 6 (Some True)
   \<and> [''docs'', ''index.html''] \<in> set required_files
   \<and> results example_lib (good_env\<lparr>cwd := remove_path [''docs'', ''index.html''] (cwd good_env)\<rparr>) =
           [(''Local Files'', Some False), (''Metadata Structure'', Some True),
            (''GeoJSON Files'', Some True), (''Sample Tiles'', Some True),
            (''Tile Count'', Some True), (''Web Server'', Some True)]
   \<and> snd (main example_lib (good_env\<lparr>cwd := remove_path [''docs'', ''index.html''] (cwd good_env)\<rparr>))
       = Inr 1"
proof -
  have p: "[''docs'', ''index.html''] \<in> set required_files" by (simp add: required_files_def)
  have n: "[''docs'', ''index.html''] \<noteq> metadata_path"
          "[''docs'', ''index.html''] \<notin> set geojson_files"
    by (simp_all add: metadata_path_def geojson_files_def)
  show ?thesis
    using removing_required_file [OF good_all_pass p] good_all_pass p n by simp
qed

text \<open>
  C4, as stated, fails: deleting the metadata file from the example site flips two checks,
  the local-files check and the metadata check, and the exit code is 2.
\<close>

theorem removing_metadata_fails_two_checks:
  "map snd (results example_lib good_env) = replicate 6 (Some True)
   \<and> metadata_path \<in> set required_files
   \<and> results example_lib (good_env\<lparr>cwd := remove_path metadata_path (cwd good_env)\<rparr>) =
           [(''Local Files'', Some False), (''Metadata Structure'', Some False),
            (''GeoJSON Files'', Some True), (''Sample Tiles'', Some True),
            (''Tile Count'', Some True), (''Web Server'', Some True)]
   \<and> snd (main example_lib (good_env\<lparr>cwd := remove_path metadata_path (cwd good_env)\<rparr>))
       = Inr 2"
proof -
  have p: "metadata_path \<in> set required_files"
    by (simp add: required_files_def metadata_path_def)
  have n: "metadata_path \<notin> set geojson_files" "metadata_path \<noteq> [''docs'', ''index.html'']"
    by (simp_all add: metadata_path_def geojson_files_def)
  show ?thesis
    using results_after_remove [OF good_all_pass p] exit_after_remove [OF good_all_pass p]
      good_all_pass p n by simp
qed

text \<open>
  C5, as the code has it. When the \<^verbatim>\<open>minzoom\<close> value is one that \<^verbatim>\<open>int\<close> converts to
  an integer other than 4, or the key is missing (the default is 0), and every other field
  is as expected, the metadata check prints all six lines, only the line of the minimum zoom
  is a failure, and the check returns \<^verbatim>\<open>False\<close>.
\<close>

theorem wrong_minzoom_fails_only_zoom_line:
  assumes meta: "json_load lib fs metadata_path = Inr (JObj items)"
    and name: "map_of items ''name'' = Some nm"
    and fmt: "map_of items ''format'' = Some (JStr ''pbf'')"
    and lo: "py_int lib (case map_of items ''minzoom'' of None \<Rightarrow> JInt 0 | Some v \<Rightarrow> v) = Inr z"
    and wrong: "z \<noteq> 4"
    and hi: "map_of items ''maxzoom'' = Some (JInt 10)"
    and emb: "map_of items ''json'' = Some (JStr embedded)"
    and layers: "json_loads lib embedded =
                   Some (JObj [(''vector_layers'', JArr [JObj [(''id'', JStr layer_id)]])])"
  shows "test_metadata_structure lib fs =
           ([Note ''Testing metadata structure...'', Ok ''Has name field'', Ok ''Format is pbf'',
             Bad ''Min zoom is 4'', Ok ''Max zoom is 10'', Ok ''Has vector layers in JSON'',
             Ok ''Correct layer ID''], False)"
proof -
  have b: "basic_checks lib (JObj items) =
             Inr [(True, ''Has name field''), (True, ''Format is pbf''),
                  (False, ''Min zoom is 4''), (True, ''Max zoom is 10'')]"
    by (simp add: basic_checks_def key_in_items name fmt lo wrong hi)
  have v: "embedded_layers lib (JObj items) = Inr (JArr [JObj [(''id'', JStr layer_id)]])"
    and l: "layer_checks (JArr [JObj [(''id'', JStr layer_id)]]) =
             Inr [(True, ''Has vector layers in JSON''), (True, ''Correct layer ID'')]"
    using expected_layers [OF emb layers] by simp_all
  show ?thesis
    by (simp add: metadata_result all_checks_def meta b v l check_line_def)
qed

text \<open>The example metadata document with \<^verbatim>\<open>"minzoom":5\<close>.\<close>

theorem wrong_minzoom_fails_only_zoom_line_witness:
  "json_load example_lib (site (metadata_text ''5'')) metadata_path = Inr (metadata_doc (JInt 5))
   \<and> json_loads example_lib layers_text = Some layers_doc
   \<and> py_int example_lib (JInt 5) = Inr 5 \<and> (5::int) \<noteq> 4
   \<and> test_metadata_structure example_lib (site (metadata_text ''5'')) =
           ([Note ''Testing metadata structure...'', Ok ''Has name field'', Ok ''Format is pbf'',
             Bad ''Min zoom is 4'', Ok ''Max zoom is 10'', Ok ''Has vector layers in JSON'',
             Ok ''Correct layer ID''], False)"
proof -
  have meta: "json_load example_lib (site (metadata_text ''5'')) metadata_path =
                Inr (JObj [(''name'', JStr ''catchments''), (''format'', JStr ''pbf''),
                           (''minzoom'', JInt 5), (''maxzoom'', JInt 10),
                           (''json'', JStr layers_text)])"
    by (simp add: site_load_metadata loads_five metadata_doc_def)
  have layers: "json_loads example_lib layers_text =
                  Some (JObj [(''vector_layers'', JArr [JObj [(''id'', JStr layer_id)]])])"
    by (simp add: loads_layers layers_doc_def)
  show ?thesis
    using wrong_minzoom_fails_only_zoom_line
            [OF meta _ _ _ _ _ _ layers, of "JStr ''catchments''" 5] meta
    by (simp add: loads_layers metadata_doc_def)
qed

text \<open>
  C5, as stated, fails: for \<^verbatim>\<open>"minzoom":null\<close>, a value other than 4, \<^verbatim>\<open>int\<close> raises,
  the outer \<^verbatim>\<open>except\<close> ends the check, and the only line printed is the error: the
  sibling sub-checks are not reported.
\<close>

theorem null_minzoom_aborts_metadata_check:
  "read_text (site (metadata_text ''null'')) metadata_path = Inr (metadata_text ''null'')
   \<and> json_loads example_lib (metadata_text ''null'') = Some (metadata_doc JNull)
   \<and> JNull \<noteq> JInt 4
   \<and> test_metadata_structure example_lib (site (metadata_text ''null'')) =
       ([Note ''Testing metadata structure...'', Bad ''Error reading metadata''], False)"
proof -
  have a: "read_text (site (metadata_text ''null'')) metadata_path = Inr (metadata_text ''null'')"
    by (simp add: read_text_def site_def site_with_def metadata_path_def)
  have b: "basic_checks example_lib (metadata_doc JNull) = Inl TypeError"
    by (simp add: basic_checks_def metadata_doc_def)
  show ?thesis
    by (simp add: a loads_null metadata_result all_checks_def site_load_metadata b)
qed

text \<open>
  C6. The loop of \<^verbatim>\<open>main\<close> over any list of checks records one result per check, in
  the order of the list. A check that raises is recorded as \<^verbatim>\<open>False\<close>, a report line
  is printed for it, and the checks after it still run: their results are recorded and
  their output is printed as if nothing had been raised.
\<close>

theorem run_tests_isolates_failures:
  "map fst (snd (run_tests ts e)) = map fst ts
   \<and> map snd (snd (run_tests ts e)) =
       map (\<lambda>t. case snd (snd t e) of Inl err \<Rightarrow> Some False | Inr r \<Rightarrow> r) ts
   \<and> fst (run_tests ts e) =
       concat (map (\<lambda>t. fst (snd t e) @
                          (case snd (snd t e) of
                             Inl err \<Rightarrow> [Bad (fst t @ '' test failed with error'')]
                           | Inr r \<Rightarrow> [])) ts)"
  by (simp add: run_tests_names run_tests_values run_tests_output)

text \<open>A run whose first check raises: it is recorded as failed and the six real checks pass.\<close>

theorem run_tests_isolates_failures_witness:
  "map snd (snd (run_tests ((''Broken'', \<lambda>e. ([], Inl TypeError)) # tests example_lib) good_env))
     = [Some False, Some True, Some True, Some True, Some True, Some True, Some True]
   \<and> map fst (snd (run_tests ((''Broken'', \<lambda>e. ([], Inl TypeError)) # tests example_lib) good_env))
     = ''Broken'' # map fst (tests example_lib)"
  using run_tests_isolates_failures
    [of "(''Broken'', \<lambda>e. ([], Inl TypeError)) # tests example_lib" good_env]
  by (simp add: tests_def returns_def good_checks)

text \<open>
  C7. A file of the GeoJSON list whose text is not valid JSON gets its own error line, and
  the check's result is \<^verbatim>\<open>False\<close>. The loop is not cut short: the output has one line
  for every file of the list, in the list's order, and the line of a file depends on that
  file alone.
\<close>

theorem geojson_invalid_json_reported:
  assumes "p \<in> set geojson_files" and "read_text fs p = Inr s" and "json_loads lib s = None"
  shows "fst (test_geojson_files lib fs) =
           Note ''Testing GeoJSON files...''
             # map (\<lambda>q. geojson_line q (geojson_file lib fs q)) geojson_files
         \<and> geojson_line p (geojson_file lib fs p) = Bad (basename p @ '' - Error'')
         \<and> snd (test_geojson_files lib fs) = False"
proof -
  from assms(2,3) have f: "geojson_file lib fs p = Inl JSONDecodeError"
    by (simp add: geojson_file_def json_load_def)
  then have "geojson_file lib fs p \<noteq> Inr True" by simp
  with assms(1) have "\<not> (\<forall>q \<in> set geojson_files. geojson_file lib fs q = Inr True)"
    by blast
  then show ?thesis
    by (simp add: geojson_result geojson_line_def f)
qed

text \<open>The rivers file holds the text \<^verbatim>\<open>{\<close>; the files before and after it are
  still reported as valid.\<close>

theorem geojson_invalid_json_reported_witness:
  "[''docs'', ''data_web'', ''hydrorivers_tr_web_final.geojson''] \<in> set geojson_files
   \<and> read_text (site_with (metadata_text ''4'') ''{'')
        [''docs'', ''data_web'', ''hydrorivers_tr_web_final.geojson''] = Inr ''{''
   \<and> json_loads example_lib ''{'' = None
   \<and> test_geojson_files example_lib (site_with (metadata_text ''4'') ''{'') =
       ([Note ''Testing GeoJSON files...'',
         Ok ''turkey_provinces_web.geojson - Valid GeoJSON'',
         Bad ''hydrorivers_tr_web_final.geojson - Error'',
         Ok ''hydrolakes_tr_web.geojson - Valid GeoJSON''], False)"
proof -
  let ?p = "[''docs'', ''data_web'', ''hydrorivers_tr_web_final.geojson'']"
  let ?fs = "site_with (metadata_text ''4'') ''{''"
  have a: "?p \<in> set geojson_files" by (simp add: geojson_files_def)
  have b: "read_text ?fs ?p = Inr ''{''" by (simp add: read_text_def site_with_def)
  have c: "json_loads example_lib ''{'' = None" by (simp add: example_lib_def text_defs)
  have d: "json_loads example_lib collection_text = Some collection_doc"
    by (simp add: example_lib_def text_defs)
  have e: "geojson_file example_lib ?fs [''docs'', ''data_web'', ''turkey_provinces_web.geojson'']
             = Inr True"
       "geojson_file example_lib ?fs [''docs'', ''data_web'', ''hydrolakes_tr_web.geojson'']
             = Inr True"
    by (simp_all add: geojson_file_def json_load_def read_text_def site_with_def d
          geojson_type_ok_def collection_doc_def)
  show ?thesis
    using geojson_invalid_json_reported [OF a b c] a b c
    by (cases "test_geojson_files example_lib ?fs")
       (simp add: geojson_files_def e geojson_line_def basename_def)
qed



text \<open>
  C9, as the code has it. The metadata check passes exactly when the document is an object
  with a \<^verbatim>\<open>name\<close> key, the format \<^verbatim>\<open>pbf\<close>, a \<^verbatim>\<open>minzoom\<close> value that \<^verbatim>\<open>int\<close>
  converts to 4 and a \<^verbatim>\<open>maxzoom\<close> value that \<^verbatim>\<open>int\<close> converts to 10, and a
  \<^verbatim>\<open>json\<close> string that parses to an object whose \<^verbatim>\<open>vector_layers\<close> list starts with an
  object whose \<^verbatim>\<open>id\<close> is the expected layer. Whenever the sub-check lines are printed,
  the two zoom lines pass exactly when \<^verbatim>\<open>int\<close> of the value (0 for a missing key) is 4,
  respectively 10. So the number 4, the float 4.5 and a string that \<^verbatim>\<open>int\<close> reads as 4
  all pass the minimum-zoom line.
\<close>

theorem zoom_checks_pass_by_int_value:
  "snd (test_metadata_structure lib fs) =
     (\<exists>items lo hi t inner layer rest.
        json_load lib fs metadata_path = Inr (JObj items)
        \<and> map_of items ''name'' \<noteq> None
        \<and> map_of items ''format'' = Some (JStr ''pbf'')
        \<and> map_of items ''minzoom'' = Some lo \<and> py_int lib lo = Inr 4
        \<and> map_of items ''maxzoom'' = Some hi \<and> py_int lib hi = Inr 10
        \<and> map_of items ''json'' = Some (JStr t)
        \<and> json_loads lib t = Some (JObj inner)
        \<and> map_of inner ''vector_layers'' = Some (JArr (JObj layer # rest))
        \<and> map_of layer ''id'' = Some (JStr layer_id))
   \<and> (all_checks lib fs = Inr cs \<longrightarrow>
        (\<exists>items. json_load lib fs metadata_path = Inr (JObj items)
           \<and> cs ! 2 = (py_int lib (case map_of items ''minzoom'' of
                                      None \<Rightarrow> JInt 0 | Some v \<Rightarrow> v) = Inr 4,
                       ''Min zoom is 4'')
           \<and> cs ! 3 = (py_int lib (case map_of items ''maxzoom'' of
                                      None \<Rightarrow> JInt 0 | Some v \<Rightarrow> v) = Inr 10,
                       ''Max zoom is 10'')))"
  using metadata_pass_iff [of lib fs] zoom_lines [of lib fs cs] by blast

text \<open>The example metadata document with \<^verbatim>\<open>"minzoom":4\<close>.\<close>

theorem zoom_checks_pass_by_int_value_witness:
  "all_checks example_lib (site (metadata_text ''4'')) =
     Inr [(True, ''Has name field''), (True, ''Format is pbf''), (True, ''Min zoom is 4''),
          (True, ''Max zoom is 10''), (True, ''Has vector layers in JSON''),
          (True, ''Correct layer ID'')]
   \<and> json_load example_lib (site (metadata_text ''4'')) metadata_path
       = Inr (metadata_doc (JInt 4))
   \<and> py_int example_lib (JInt 4) = Inr 4 \<and> py_int example_lib (JInt 10) = Inr 10
   \<and> snd (test_metadata_structure example_lib (site (metadata_text ''4'')))"
proof -
  have "snd (test_metadata_structure example_lib (site (metadata_text ''4'')))"
    using zoom_checks_pass_by_int_value
            [of example_lib "site (metadata_text ''4'')"
               "[(True, ''Has name field''), (True, ''Format is pbf''), (True, ''Min zoom is 4''),
                 (True, ''Max zoom is 10''), (True, ''Has vector layers in JSON''),
                 (True, ''Correct layer ID'')]"]
          good_all_checks
    by (simp add: good_metadata)
  then show ?thesis
    by (simp add: good_all_checks site_load_metadata loads_named)
qed

text \<open>
  C9, as stated, fails: with \<^verbatim>\<open>"minzoom":4.5\<close>, which is not the literal 4, \<^verbatim>\<open>int\<close>
  gives 4, the zoom lines pass and so does the whole check.
\<close>

theorem fractional_minzoom_passes:
  "read_text (site (metadata_text ''4.5'')) metadata_path = Inr (metadata_text ''4.5'')
   \<and> json_loads example_lib (metadata_text ''4.5'')
       = Some (metadata_doc (JFloat (Finite (9 / 2))))
   \<and> JFloat (Finite (9 / 2)) \<noteq> JInt 4
   \<and> py_int example_lib (JFloat (Finite (9 / 2))) = Inr 4
   \<and> test_metadata_structure example_lib (site (metadata_text ''4.5'')) =
       ([Note ''Testing metadata structure...'', Ok ''Has name field'', Ok ''Format is pbf'',
         Ok ''Min zoom is 4'', Ok ''Max zoom is 10'', Ok ''Has vector layers in JSON'',
         Ok ''Correct layer ID''], True)"
proof -
  have a: "read_text (site (metadata_text ''4.5'')) metadata_path = Inr (metadata_text ''4.5'')"
    by (simp add: read_text_def site_def site_with_def metadata_path_def)
  have fl: "\<lfloor>9 / 2 :: rat\<rfloor> = 4" by (simp add: floor_eq_iff)
  then have f: "py_int example_lib (JFloat (Finite (9 / 2))) = Inr 4"
    by simp
  have b: "basic_checks example_lib (metadata_doc (JFloat (Finite (9 / 2)))) =
             Inr [(True, ''Has name field''), (True, ''Format is pbf''),
                  (True, ''Min zoom is 4''), (True, ''Max zoom is 10'')]"
    by (simp add: basic_checks_def metadata_doc_def fl)
  have v: "embedded_layers example_lib (metadata_doc (JFloat (Finite (9 / 2)))) =
             Inr (JArr [JObj [(''id'', JStr layer_id)]])"
    by (simp add: embedded_layers_def metadata_doc_def loads_layers layers_doc_def)
  have l: "layer_checks (JArr [JObj [(''id'', JStr layer_id)]]) =
             Inr [(True, ''Has vector layers in JSON''), (True, ''Correct layer ID'')]"
    by (simp add: layer_checks_def has_layers_def layer_id_ok_def)
  show ?thesis
    by (simp add: a fl loads_fraction metadata_result all_checks_def site_load_metadata b v l
          check_line_def)
qed

text \<open>
  C10, as the code has it. Let the metadata document be an object whose four basic
  sub-checks were evaluated without an exception. When its \<^verbatim>\<open>json\<close> key is missing, or
  \<^verbatim>\<open>json.loads\<close> of the value raises, or the value parses to an object whose
  \<^verbatim>\<open>vector_layers\<close> is missing or the empty list, then the vector layers are
  \<^verbatim>\<open>None\<close> or the empty list, both layer sub-checks evaluate to false without raising,
  and the check prints all six sub-check lines, the last two as failures. The layer-id
  sub-check never raises \<^verbatim>\<open>IndexError\<close>, whatever the vector layers are.
\<close>

theorem missing_layers_fail_without_raising:
  assumes meta: "json_load lib fs metadata_path = Inr (JObj items)"
    and basic: "basic_checks lib (JObj items) = Inr basic"
    and none: "map_of items ''json'' = None
     \<or> (\<exists>v err. map_of items ''json'' = Some v \<and> py_loads lib v = Inl err)
     \<or> (\<exists>v inner. map_of items ''json'' = Some v \<and> py_loads lib v = Inr (JObj inner)
           \<and> (map_of inner ''vector_layers'' = None
                \<or> map_of inner ''vector_layers'' = Some (JArr [])))"
  shows "(\<exists>vl. embedded_layers lib (JObj items) = Inr vl
            \<and> has_layers vl = Inr False \<and> layer_id_ok vl = Inr False)
         \<and> (\<forall>v. layer_id_ok v \<noteq> Inl IndexError)
         \<and> length basic = 4
         \<and> test_metadata_structure lib fs =
             (Note ''Testing metadata structure...'' # map check_line basic
                @ [Bad ''Has vector layers in JSON'', Bad ''Correct layer ID''], False)"
proof -
  from no_layers_value [OF none] obtain vl where
    v: "embedded_layers lib (JObj items) = Inr vl" and e: "vl = JNull \<or> vl = JArr []"
    by blast
  note l = no_layers_checks [OF e]
  have "test_metadata_structure lib fs =
             (Note ''Testing metadata structure...'' # map check_line basic
                @ [Bad ''Has vector layers in JSON'', Bad ''Correct layer ID''], False)"
    by (simp add: metadata_result all_checks_def meta basic v l(3) check_line_def)
  moreover from basic have "length basic = 4"
    by (auto simp add: basic_checks_def split: sum.splits)
  ultimately show ?thesis
    using v l(1,2) layer_id_never_out_of_range by blast
qed

text \<open>A metadata document with the four basic fields and no \<^verbatim>\<open>json\<close> key.\<close>

theorem missing_layers_fail_without_raising_witness:
  "json_load example_lib (site plain_metadata_text) metadata_path = Inr plain_metadata_doc
   \<and> basic_checks example_lib plain_metadata_doc =
       Inr [(True, ''Has name field''), (True, ''Format is pbf''),
            (True, ''Min zoom is 4''), (True, ''Max zoom is 10'')]
   \<and> embedded_layers example_lib plain_metadata_doc = Inr JNull
   \<and> layer_id_ok JNull = Inr False
   \<and> test_metadata_structure example_lib (site plain_metadata_text) =
       ([Note ''Testing metadata structure...'', Ok ''Has name field'', Ok ''Format is pbf'',
         Ok ''Min zoom is 4'', Ok ''Max zoom is 10'', Bad ''Has vector layers in JSON'',
         Bad ''Correct layer ID''], False)"
proof -
  let ?items = "[(''name'', JStr ''catchments''), (''format'', JStr ''pbf''),
                 (''minzoom'', JInt 4), (''maxzoom'', JInt 10)]"
  have meta: "json_load example_lib (site plain_metadata_text) metadata_path = Inr (JObj ?items)"
    by (simp add: site_load_metadata loads_plain plain_metadata_doc_def)
  have basic: "basic_checks example_lib (JObj ?items) =
       Inr [(True, ''Has name field''), (True, ''Format is pbf''),
            (True, ''Min zoom is 4''), (True, ''Max zoom is 10'')]"
    by (simp add: basic_checks_def)
  have none: "map_of ?items ''json'' = None
     \<or> (\<exists>v err. map_of ?items ''json'' = Some v \<and> py_loads example_lib v = Inl err)
     \<or> (\<exists>v inner. map_of ?items ''json'' = Some v \<and> py_loads example_lib v = Inr (JObj inner)
           \<and> (map_of inner ''vector_layers'' = None
                \<or> map_of inner ''vector_layers'' = Some (JArr [])))"
    by simp
  have e: "embedded_layers example_lib (JObj ?items) = Inr JNull"
    by (simp add: embedded_layers_obj)
  show ?thesis
    using missing_layers_fail_without_raising [OF meta basic none] meta basic e
    by (simp add: plain_metadata_doc_def check_line_def layer_id_ok_def)
qed

text \<open>
  C10, as stated, fails in its last part: the document \<^verbatim>\<open>{"minzoom":null}\<close> has no
  \<^verbatim>\<open>json\<close> key, but \<^verbatim>\<open>int(None)\<close> raises in the basic sub-checks, before the layer
  sub-checks are reached, and the check prints the error line instead of the sub-check lines.
\<close>

theorem missing_json_key_after_failed_zoom:
  "read_text (site null_zoom_text) metadata_path = Inr null_zoom_text
   \<and> json_loads example_lib null_zoom_text = Some (JObj [(''minzoom'', JNull)])
   \<and> map_of [(''minzoom'', JNull)] ''json'' = None
   \<and> test_metadata_structure example_lib (site null_zoom_text) =
       ([Note ''Testing metadata structure...'', Bad ''Error reading metadata''], False)"
proof -
  have a: "read_text (site null_zoom_text) metadata_path = Inr null_zoom_text"
    by (simp add: read_text_def site_def site_with_def metadata_path_def)
  have b: "basic_checks example_lib (JObj [(''minzoom'', JNull)]) = Inl TypeError"
    by (simp add: basic_checks_def)
  show ?thesis
    by (simp add: a loads_null_zoom metadata_result all_checks_def site_load_metadata b)
qed

end
